theory Spec2Isabelle
  imports Main "HOL-Library.AList"
begin

section \<open>Cloud synchronisation of the portfolio application\<close>

text \<open>
  The development embeds \<^verbatim>\<open>lib/cloudSync.ts\<close>, \<^verbatim>\<open>lib/supabaseClient.ts\<close> and the
  throttled revision of the component \<^verbatim>\<open>CloudSyncPanel\<close> (bootstrap effect, periodic
  pull, periodic push, hourly reload throttle).

  Conventions of the embedding:
  \<^item> a \<^verbatim>\<open>Record<string, string>\<close> is an association list in insertion order, the order
    \<^verbatim>\<open>Object.keys\<close> and \<^verbatim>\<open>JSON.stringify\<close> follow for keys that are not array
    indices; \<^verbatim>\<open>payload[key]\<close> is \<open>map_of payload key\<close>;
  \<^item> \<^verbatim>\<open>localStorage\<close> is a map from keys to strings and is taken to be accessible and
    unbounded: \<^verbatim>\<open>getItem\<close> and \<^verbatim>\<open>setItem\<close> do not throw;
  \<^item> the backend is the table \<^verbatim>\<open>user_state\<close>, a map from user ids to rows, together with
    the list of requests that reached it; a row answers a query with the payload it was
    given, and an upsert that is answered with an error leaves the table as it was;
    whether a request is answered with an error is an argument of the operation
    (\<open>None\<close>: no error);
  \<^item> every \<^verbatim>\<open>await\<close> is resolved inside the step that issues it, the answer being an
    argument of the step; the clock value read by a step is an argument too.
\<close>

subsection \<open>Strings of the platform\<close>

definition digit :: "nat \<Rightarrow> char" where
  "digit d = ''0123456789'' ! d"

text \<open>Decimal rendering of a natural number, as the template literal \<^verbatim>\<open>`${i + 1}`\<close> does.\<close>

fun String_nat :: "nat \<Rightarrow> string" where
  "String_nat n = (if n < 10 then [digit n] else String_nat (n div 10) @ [digit (n mod 10)])"

declare String_nat.simps [simp del]

definition hexdigit :: "nat \<Rightarrow> char" where
  "hexdigit d = ''0123456789abcdef'' ! d"

text \<open>
  \<^verbatim>\<open>JSON.stringify\<close> on an object whose values are strings: the two-character escapes,
  \<^verbatim>\<open>\u00XX\<close> for the other control characters, everything else literally.
\<close>

definition QuoteJSONChar :: "char \<Rightarrow> string" where
  "QuoteJSONChar c =
     (if c = CHR 0x08 then [CHR 0x5C, CHR ''b'']
      else if c = CHR 0x09 then [CHR 0x5C, CHR ''t'']
      else if c = CHR 0x0A then [CHR 0x5C, CHR ''n'']
      else if c = CHR 0x0C then [CHR 0x5C, CHR ''f'']
      else if c = CHR 0x0D then [CHR 0x5C, CHR ''r'']
      else if c = CHR 0x22 then [CHR 0x5C, CHR 0x22]
      else if c = CHR 0x5C then [CHR 0x5C, CHR 0x5C]
      else if of_char c < (32::nat) then
        [CHR 0x5C, CHR ''u'', CHR ''0'', CHR ''0'',
         hexdigit (of_char c div 16), hexdigit (of_char c mod 16)]
      else [c])"

definition QuoteJSONString :: "string \<Rightarrow> string" where
  "QuoteJSONString s = [CHR 0x22] @ concat (map QuoteJSONChar s) @ [CHR 0x22]"

fun join :: "string \<Rightarrow> string list \<Rightarrow> string" where
  "join sep [] = []"
| "join sep [x] = x"
| "join sep (x # y # ys) = x @ sep @ join sep (y # ys)"

type_synonym CloudPayload = "(string \<times> string) list"

definition JSON_stringify :: "CloudPayload \<Rightarrow> string" where
  "JSON_stringify payload =
     ''{'' @ join '','' (map (\<lambda>(k, v). QuoteJSONString k @ '':'' @ QuoteJSONString v) payload)
     @ ''}''"

definition Object_keys :: "CloudPayload \<Rightarrow> string list" where
  "Object_keys payload = map fst payload"

subsection \<open>supabaseClient.ts\<close>

record env =
  VITE_SUPABASE_URL :: "string option"
  VITE_SUPABASE_ANON_KEY :: "string option"

text \<open>Truthiness of a \<^verbatim>\<open>string | undefined\<close>: defined and not the empty string.\<close>

definition truthy :: "string option \<Rightarrow> bool" where
  "truthy v = (case v of None \<Rightarrow> False | Some s \<Rightarrow> s \<noteq> [])"

definition isSupabaseConfigured :: "env \<Rightarrow> bool" where
  "isSupabaseConfigured e = (truthy (VITE_SUPABASE_URL e) \<and> truthy (VITE_SUPABASE_ANON_KEY e))"

datatype client = createClient string string

definition supabase :: "env \<Rightarrow> client option" where
  "supabase e =
     (if isSupabaseConfigured e
      then (case (VITE_SUPABASE_URL e, VITE_SUPABASE_ANON_KEY e) of
              (Some supabaseUrl, Some supabaseAnonKey) \<Rightarrow>
                 Some (createClient supabaseUrl supabaseAnonKey)
            | _ \<Rightarrow> None)
      else None)"

subsection \<open>The state the sync code works on\<close>

type_synonym Storage = "string \<rightharpoonup> string"

text \<open>
  The one \<^verbatim>\<open>sessionStorage\<close> entry the panel uses, \<^verbatim>\<open>cloudSyncLastAutoReloadAt\<close>.
  The entry is written by \<^verbatim>\<open>markAutoReloadNow\<close> only, as \<^verbatim>\<open>String(Date.now())\<close>, and
  read back through \<^verbatim>\<open>Number\<close>; it is kept as the integer itself. Reads and writes may
  throw (storage blocked by the browser); the source catches both.
\<close>

record session_storage =
  readThrows :: bool
  writeThrows :: bool
  item :: "int option"

record row =
  row_payload :: CloudPayload
  row_updated_at :: int

datatype request = Select string | Upsert string CloudPayload int

datatype error = SyncError string

datatype status = S_idle | S_sending | S_waiting | S_syncing | S_ready | S_error

text \<open>The texts shown by \<^verbatim>\<open>setMessage\<close>, one constructor for each literal of the source.\<close>

datatype message =
    M_empty
  | M_loading
  | M_adjusted_reload
  | M_checked
  | M_adjusted_throttled
  | M_sync_on
  | M_init_failed
  | M_changed_reload
  | M_changed_throttled
  | M_signed_out
  | M_text string

record state =
  localStorage :: Storage
  sessionStorage :: session_storage
  user_state :: "string \<rightharpoonup> row"
  requests :: "request list"
  console :: "error list"
  reloadTimers :: "int list"
  lastPushedRef :: string
  pushingRef :: bool
  status :: status
  message :: message
  lastSyncText :: "int option"

text \<open>
  \<open>requests\<close> lists the queries sent to the backend, \<open>console\<close> the errors given to
  \<^verbatim>\<open>console.error\<close>, \<open>reloadTimers\<close> the clock values at which
  \<^verbatim>\<open>setTimeout(() => window.location.reload(), 600)\<close> was called.
\<close>

text \<open>The number of upserts that reached the backend.\<close>

definition isUpsert :: "request \<Rightarrow> bool" where
  "isUpsert r = (case r of Upsert userId p now \<Rightarrow> True | Select userId \<Rightarrow> False)"

definition upserts :: "state \<Rightarrow> nat" where
  "upserts st = length (filter isUpsert (requests st))"

subsection \<open>cloudSync.ts\<close>

definition SYNC_KEYS :: "string list" where
  "SYNC_KEYS =
     [''stockPortfolio'', ''stockWatchlist'', ''bankAccounts'', ''assetTrend'']
     @ map (\<lambda>i. ''monthlyBudget_'' @ String_nat (i + 1)) [0..<12]"

text \<open>
  \<^verbatim>\<open>payload[key] = v\<close> is \<open>AList.update\<close>: the value is replaced in place when the key is
  there and the pair is appended otherwise.
\<close>

definition readLocalStoragePayload :: "Storage \<Rightarrow> CloudPayload" where
  "readLocalStoragePayload ls =
     fold (\<lambda>key payload. case ls key of None \<Rightarrow> payload | Some v \<Rightarrow> AList.update key v payload)
       SYNC_KEYS []"

text \<open>
  \<^verbatim>\<open>localStorage.setItem(key, payload[key])\<close> for each key of the payload; a key of
  \<^verbatim>\<open>Object.keys(payload)\<close> always has a value, and \<^verbatim>\<open>setItem\<close> would store the text
  of \<^verbatim>\<open>undefined\<close> otherwise.
\<close>

definition writeLocalStoragePayload :: "CloudPayload \<Rightarrow> Storage \<Rightarrow> Storage" where
  "writeLocalStoragePayload payload ls =
     fold (\<lambda>key ls'. ls'(key \<mapsto> (case map_of payload key of Some v \<Rightarrow> v | None \<Rightarrow> ''undefined'')))
       (Object_keys payload) ls"

definition pullFromCloud ::
  "client option \<Rightarrow> error option \<Rightarrow> string \<Rightarrow> state \<Rightarrow> (error + CloudPayload option) \<times> state" where
  "pullFromCloud client fault userId st =
     (case client of
        None \<Rightarrow> (Inr None, st)
      | Some c \<Rightarrow>
          (let st' = st\<lparr>requests := requests st @ [Select userId]\<rparr> in
           case fault of
             Some e \<Rightarrow> (Inl e, st')
           | None \<Rightarrow>
               (case user_state st userId of
                  None \<Rightarrow> (Inr None, st')
                | Some data \<Rightarrow> (Inr (Some (row_payload data)), st'))))"

definition pushToCloud ::
  "client option \<Rightarrow> error option \<Rightarrow> int \<Rightarrow> string \<Rightarrow> CloudPayload \<Rightarrow> state \<Rightarrow> (error + unit) \<times> state" where
  "pushToCloud client fault now userId payload st =
     (case client of
        None \<Rightarrow> (Inr (), st)
      | Some c \<Rightarrow>
          (let st' = st\<lparr>requests := requests st @ [Upsert userId payload now]\<rparr> in
           case fault of
             Some e \<Rightarrow> (Inl e, st')
           | None \<Rightarrow>
               (Inr (), st'\<lparr>user_state := (user_state st')(userId \<mapsto> \<lparr>row_payload = payload, row_updated_at = now\<rparr>)\<rparr>)))"

subsection \<open>CloudSyncPanel: the reload throttle\<close>

definition AUTO_RELOAD_INTERVAL_MS :: int where
  "AUTO_RELOAD_INTERVAL_MS = 60 * 60 * 1000"

text \<open>
  \<^verbatim>\<open>Number(sessionStorage.getItem(KEY) || '0')\<close> inside \<^verbatim>\<open>try\<close>, with \<^verbatim>\<open>return 0\<close> in
  the handler.
\<close>

definition getLastAutoReloadAt :: "session_storage \<Rightarrow> int" where
  "getLastAutoReloadAt ss =
     (if readThrows ss then 0 else (case item ss of None \<Rightarrow> 0 | Some t \<Rightarrow> t))"

definition canAutoReloadNow :: "int \<Rightarrow> session_storage \<Rightarrow> bool" where
  "canAutoReloadNow now ss =
     (let last = getLastAutoReloadAt ss in now - last \<ge> AUTO_RELOAD_INTERVAL_MS)"

definition markAutoReloadNow :: "int \<Rightarrow> session_storage \<Rightarrow> session_storage" where
  "markAutoReloadNow now ss = (if writeThrows ss then ss else ss\<lparr>item := Some now\<rparr>)"

definition clearAutoReloadMark :: "session_storage \<Rightarrow> session_storage" where
  "clearAutoReloadMark ss = (if writeThrows ss then ss else ss\<lparr>item := None\<rparr>)"

definition signOut :: "client option \<Rightarrow> state \<Rightarrow> state" where
  "signOut client st =
     (case client of
        None \<Rightarrow> st
      | Some c \<Rightarrow>
          st\<lparr>sessionStorage := clearAutoReloadMark (sessionStorage st),
             status := S_idle, message := M_signed_out\<rparr>)"

subsection \<open>CloudSyncPanel: pulling\<close>

text \<open>
  \<^verbatim>\<open>Object.keys(cloudPayload).every((k) => localPayload[k] === cloudPayload[k])\<close>.
  A key that the local payload lacks reads as \<^verbatim>\<open>undefined\<close> (or as a member of the
  prototype), which is never identical to a string.
\<close>

definition isSame :: "CloudPayload \<Rightarrow> CloudPayload \<Rightarrow> bool" where
  "isSame cloudPayload localPayload =
     list_all (\<lambda>k. map_of localPayload k = map_of cloudPayload k) (Object_keys cloudPayload)"

text \<open>
  The callback of the hourly \<^verbatim>\<open>setInterval\<close>. The clock is read once for the decision
  and the mark, which the source takes in the same synchronous step.
\<close>

definition pullTick :: "client option \<Rightarrow> string \<Rightarrow> error option \<Rightarrow> int \<Rightarrow> state \<Rightarrow> state" where
  "pullTick client userId fault now st =
     (case pullFromCloud client fault userId st of
        (Inl e, st1) \<Rightarrow> st1\<lparr>console := console st1 @ [e]\<rparr>
      | (Inr None, st1) \<Rightarrow> st1
      | (Inr (Some cloudPayload), st1) \<Rightarrow>
          if length (Object_keys cloudPayload) = 0 then st1
          else
            (let localPayload = readLocalStoragePayload (localStorage st1) in
             if isSame cloudPayload localPayload then st1
             else
               (let st2 = st1\<lparr>localStorage := writeLocalStoragePayload cloudPayload (localStorage st1)\<rparr>
                in if canAutoReloadNow now (sessionStorage st2)
                   then st2\<lparr>sessionStorage := markAutoReloadNow now (sessionStorage st2),
                           message := M_changed_reload,
                           reloadTimers := reloadTimers st2 @ [now]\<rparr>
                   else st2\<lparr>message := M_changed_throttled\<rparr>)))"

text \<open>The effect installs the timer only for a signed-in user, a status other than
  \<^verbatim>\<open>'error'\<close> and a configured client.\<close>

definition periodicPull ::
  "client option \<Rightarrow> string option \<Rightarrow> error option \<Rightarrow> int \<Rightarrow> state \<Rightarrow> state" where
  "periodicPull client user fault now st =
     (case user of
        None \<Rightarrow> st
      | Some userId \<Rightarrow>
          if status st = S_error then st
          else if client = None then st
          else pullTick client userId fault now st)"

subsection \<open>CloudSyncPanel: pushing\<close>

text \<open>
  The callback of the 20-second \<^verbatim>\<open>setInterval\<close>. Its \<^verbatim>\<open>finally\<close> block runs on every
  way out of the \<^verbatim>\<open>try\<close>, the early returns included, and clears \<^verbatim>\<open>pushingRef\<close>.
  \<open>isTyping\<close> says whether the focused element is an \<^verbatim>\<open>INPUT\<close> or a \<^verbatim>\<open>TEXTAREA\<close>.
\<close>

definition pushTick ::
  "client option \<Rightarrow> string \<Rightarrow> bool \<Rightarrow> error option \<Rightarrow> int \<Rightarrow> state \<Rightarrow> state" where
  "pushTick client userId isTyping fault now st =
     (if pushingRef st then st\<lparr>pushingRef := False\<rparr>
      else
        (let payload = readLocalStoragePayload (localStorage st);
             json = JSON_stringify payload
         in if json = lastPushedRef st then st\<lparr>pushingRef := False\<rparr>
            else if isTyping then st\<lparr>pushingRef := False\<rparr>
            else
              (case pushToCloud client fault now userId payload (st\<lparr>pushingRef := True\<rparr>) of
                 (Inl e, st1) \<Rightarrow> st1\<lparr>console := console st1 @ [e], pushingRef := False\<rparr>
               | (Inr u, st1) \<Rightarrow>
                   st1\<lparr>lastPushedRef := json, lastSyncText := Some now, status := S_ready,
                       pushingRef := False\<rparr>)))"

definition periodicPush ::
  "client option \<Rightarrow> string option \<Rightarrow> bool \<Rightarrow> error option \<Rightarrow> int \<Rightarrow> state \<Rightarrow> state" where
  "periodicPush client user isTyping fault now st =
     (case user of
        None \<Rightarrow> st
      | Some userId \<Rightarrow>
          if status st = S_error then st
          else if client = None then st
          else pushTick client userId isTyping fault now st)"

subsection \<open>CloudSyncPanel: the bootstrap effect\<close>

text \<open>The handler of the bootstrap: log, status \<^verbatim>\<open>'error'\<close>, the error's message or the
  default text.\<close>

definition bootstrapCatch :: "error \<Rightarrow> state \<Rightarrow> state" where
  "bootstrapCatch e st =
     st\<lparr>console := console st @ [e], status := S_error,
        message := (case e of SyncError m \<Rightarrow> if m \<noteq> [] then M_text m else M_init_failed)\<rparr>"

text \<open>
  The block guarded by \<^verbatim>\<open>cloudPayload && Object.keys(cloudPayload).length > 0\<close>. The
  Boolean of the result says whether the block left the effect through its
  \<^verbatim>\<open>return\<close>, after scheduling the reload.
\<close>

definition bootstrapMerge :: "CloudPayload option \<Rightarrow> int \<Rightarrow> state \<Rightarrow> bool \<times> state" where
  "bootstrapMerge cloudPayload' now st =
     (case cloudPayload' of
        None \<Rightarrow> (False, st)
      | Some cloudPayload \<Rightarrow>
          if length (Object_keys cloudPayload) > 0 then
            (let localBefore = readLocalStoragePayload (localStorage st);
                 same = isSame cloudPayload localBefore;
                 st1 = (if \<not> same
                        then st\<lparr>localStorage := writeLocalStoragePayload cloudPayload (localStorage st)\<rparr>
                        else st)
             in if \<not> same \<and> canAutoReloadNow now (sessionStorage st1)
                then (True, st1\<lparr>sessionStorage := markAutoReloadNow now (sessionStorage st1),
                                message := M_adjusted_reload,
                                reloadTimers := reloadTimers st1 @ [now]\<rparr>)
                else (False, st1\<lparr>message := (if same then M_checked else M_adjusted_throttled)\<rparr>))
          else (False, st))"

text \<open>The tail of the effect: push the local payload and record it as pushed.\<close>

definition bootstrapPush :: "client option \<Rightarrow> string \<Rightarrow> error option \<Rightarrow> int \<Rightarrow> state \<Rightarrow> state" where
  "bootstrapPush client userId fault now st =
     (let localPayload = readLocalStoragePayload (localStorage st) in
      case pushToCloud client fault now userId localPayload st of
        (Inl e, st1) \<Rightarrow> bootstrapCatch e st1
      | (Inr u, st1) \<Rightarrow>
          st1\<lparr>lastPushedRef := JSON_stringify localPayload, lastSyncText := Some now,
              status := S_ready, message := M_sync_on\<rparr>)"

text \<open>
  The effect that runs when \<^verbatim>\<open>user\<close> or \<^verbatim>\<open>loading\<close> changes. \<open>cancelled\<close> is the flag
  of the effect's clean-up as read when the pull has answered; \<open>now\<close> is the clock at the
  reload decision and \<open>pushedAt\<close> the clock at the push.
\<close>

definition bootstrap ::
  "client option \<Rightarrow> string option \<Rightarrow> bool \<Rightarrow> bool \<Rightarrow> error option \<Rightarrow> error option
     \<Rightarrow> int \<Rightarrow> int \<Rightarrow> state \<Rightarrow> state" where
  "bootstrap client user loading cancelled pullFault pushFault now pushedAt st =
     (if loading then st
      else
        (case user of
           None \<Rightarrow> st
         | Some userId \<Rightarrow>
             if client = None then st
             else
               (case pullFromCloud client pullFault userId
                       (st\<lparr>status := S_syncing, message := M_loading\<rparr>) of
                  (Inl e, st1) \<Rightarrow> bootstrapCatch e st1
                | (Inr cloudPayload, st1) \<Rightarrow>
                    if cancelled then st1
                    else
                      (case bootstrapMerge cloudPayload now st1 of
                         (True, st2) \<Rightarrow> st2
                       | (False, st2) \<Rightarrow> bootstrapPush client userId pushFault pushedAt st2))))"

subsection \<open>The outcomes of a pull\<close>

text \<open>
  The three ways the pulling code can go, named as the specification names them: the
  answer is \<^verbatim>\<open>null\<close> or has no key (the code treats both alike), every key of the answer
  has the local value, or some key differs and the answer is written to \<^verbatim>\<open>localStorage\<close>.
\<close>

datatype outcome = NoRemoteData | UpToDate | Merged

definition pullOutcome :: "CloudPayload option \<Rightarrow> Storage \<Rightarrow> outcome" where
  "pullOutcome cloudPayload' ls =
     (case cloudPayload' of
        None \<Rightarrow> NoRemoteData
      | Some cloudPayload \<Rightarrow>
          if length (Object_keys cloudPayload) = 0 then NoRemoteData
          else if isSame cloudPayload (readLocalStoragePayload ls) then UpToDate
          else Merged)"

text \<open>What the backend answers to the query of a user's row when no error occurs.\<close>

definition remotePayload :: "state \<Rightarrow> string \<Rightarrow> CloudPayload option" where
  "remotePayload st userId = map_option row_payload (user_state st userId)"

subsection \<open>The panel when it mounts\<close>

text \<open>
  The initial values of the component: \<^verbatim>\<open>useRef('')\<close>, \<^verbatim>\<open>useRef(false)\<close>,
  \<^verbatim>\<open>useState('idle')\<close>, empty message and last-sync text; nothing requested, logged or
  scheduled yet. The storages and the table are those of the browser and the backend.
\<close>

definition mount :: "Storage \<Rightarrow> session_storage \<Rightarrow> (string \<rightharpoonup> row) \<Rightarrow> state" where
  "mount ls ss tbl =
     \<lparr>localStorage = ls, sessionStorage = ss, user_state = tbl,
      requests = [], console = [], reloadTimers = [],
      lastPushedRef = [], pushingRef = False, status = S_idle, message = M_empty,
      lastSyncText = None\<rparr>"

subsection \<open>Requests that carry synced keys only\<close>

definition onlySyncedKeys :: "request \<Rightarrow> bool" where
  "onlySyncedKeys r =
     (case r of
        Select userId \<Rightarrow> True
      | Upsert userId payload now \<Rightarrow> set (Object_keys payload) \<subseteq> set SYNC_KEYS)"

subsection \<open>Runs of the panel\<close>

text \<open>
  A reload of the page builds the component anew over the same storages and the same
  backend; the three logs of the model are kept.
\<close>

definition pageReload :: "state \<Rightarrow> state" where
  "pageReload st =
     (mount (localStorage st) (sessionStorage st) (user_state st))
       \<lparr>requests := requests st, console := console st, reloadTimers := reloadTimers st\<rparr>"

text \<open>
  What happens while a user stays signed in, in any order: the bootstrap effect, a tick
  of either timer, a write by the other writers of the two stores (the forms of the
  application write \<^verbatim>\<open>localStorage\<close>, other devices write the table), a reload of the
  page.
\<close>

datatype action =
    Bootstrap bool "error option" "error option" int int
  | PullTick "error option" int
  | PushTick bool "error option" int
  | OtherWriters Storage "string \<rightharpoonup> row"
  | PageReload

fun act :: "client option \<Rightarrow> string \<Rightarrow> action \<Rightarrow> state \<Rightarrow> state" where
  "act client userId (Bootstrap cancelled pullFault pushFault now pushedAt) st =
     bootstrap client (Some userId) False cancelled pullFault pushFault now pushedAt st"
| "act client userId (PullTick fault now) st = periodicPull client (Some userId) fault now st"
| "act client userId (PushTick isTyping fault now) st =
     periodicPush client (Some userId) isTyping fault now st"
| "act client userId (OtherWriters ls tbl) st = st\<lparr>localStorage := ls, user_state := tbl\<rparr>"
| "act client userId PageReload st = pageReload st"

definition run :: "client option \<Rightarrow> string \<Rightarrow> action list \<Rightarrow> state \<Rightarrow> state" where
  "run client userId acts st = fold (act client userId) acts st"

text \<open>Scheduled reloads that are pairwise at least one cool-down apart, in the order in
  which they were scheduled.\<close>

definition spaced :: "int list \<Rightarrow> bool" where
  "spaced ts = sorted_wrt (\<lambda>t t'. t' - t \<ge> AUTO_RELOAD_INTERVAL_MS) ts"

text \<open>
  The state of the throttle that the reload branches maintain while the storage works:
  the scheduled reloads are spaced, and the entry of the storage is the time of the
  latest one.
\<close>

definition throttleInv :: "session_storage \<Rightarrow> int list \<Rightarrow> bool" where
  "throttleInv ss ts \<longleftrightarrow>
     \<not> readThrows ss \<and> \<not> writeThrows ss \<and> spaced ts \<and> (ts \<noteq> [] \<longrightarrow> item ss = Some (last ts))"

section \<open>Basic facts\<close>

subsection \<open>Payloads and the local store\<close>

lemma SYNC_KEYS_list:
  "SYNC_KEYS =
     [''stockPortfolio'', ''stockWatchlist'', ''bankAccounts'', ''assetTrend'',
      ''monthlyBudget_1'', ''monthlyBudget_2'', ''monthlyBudget_3'', ''monthlyBudget_4'',
      ''monthlyBudget_5'', ''monthlyBudget_6'', ''monthlyBudget_7'', ''monthlyBudget_8'',
      ''monthlyBudget_9'', ''monthlyBudget_10'', ''monthlyBudget_11'', ''monthlyBudget_12'']"
  by code_simp

lemma map_of_read_fold:
  "map_of (fold (\<lambda>key payload. case ls key of None \<Rightarrow> payload | Some v \<Rightarrow> AList.update key v payload) keys acc) k
     = (if k \<in> set keys then (case ls k of None \<Rightarrow> map_of acc k | Some v \<Rightarrow> Some v) else map_of acc k)"
  by (induction keys arbitrary: acc) (auto simp: update_conv' split: option.splits)

lemma map_of_readLocalStoragePayload:
  "map_of (readLocalStoragePayload ls) k = (if k \<in> set SYNC_KEYS then ls k else None)"
  by (simp add: readLocalStoragePayload_def map_of_read_fold split: option.splits)

lemma keys_readLocalStoragePayload:
  "set (Object_keys (readLocalStoragePayload ls)) = {k \<in> set SYNC_KEYS. ls k \<noteq> None}"
proof -
  have "set (Object_keys (readLocalStoragePayload ls)) = dom (map_of (readLocalStoragePayload ls))"
    by (simp add: Object_keys_def dom_map_of_conv_image_fst)
  also have "\<dots> = {k \<in> set SYNC_KEYS. ls k \<noteq> None}"
    by (auto simp: dom_def map_of_readLocalStoragePayload)
  finally show ?thesis .
qed

lemma write_fold:
  "fold (\<lambda>key ls'. ls'(key \<mapsto> f key)) keys ls k = (if k \<in> set keys then Some (f k) else ls k)"
  by (induction keys arbitrary: ls) auto

lemma writeLocalStoragePayload_eq:
  "writeLocalStoragePayload payload ls = ls ++ map_of payload"
proof
  fix k
  show "writeLocalStoragePayload payload ls k = (ls ++ map_of payload) k"
  proof (cases "map_of payload k")
    case None
    then have "k \<notin> set (Object_keys payload)"
      by (simp add: Object_keys_def map_of_eq_None_iff)
    with None show ?thesis
      by (simp add: writeLocalStoragePayload_def write_fold map_add_def)
  next
    case (Some v)
    then have "k \<in> set (Object_keys payload)"
      by (metis Object_keys_def map_of_eq_None_iff option.distinct(1) set_map)
    with Some show ?thesis
      by (simp add: writeLocalStoragePayload_def write_fold map_add_def)
  qed
qed

lemma isSame_iff:
  "isSame cloudPayload (readLocalStoragePayload ls)
     \<longleftrightarrow> (\<forall>k v. map_of cloudPayload k = Some v \<longrightarrow> k \<in> set SYNC_KEYS \<and> ls k = Some v)"
proof -
  have keys: "k \<in> set (Object_keys cloudPayload) \<longleftrightarrow> (\<exists>v. map_of cloudPayload k = Some v)" for k
    by (metis Object_keys_def map_of_eq_None_iff not_None_eq set_map)
  show ?thesis
    unfolding isSame_def list_all_iff Ball_def keys map_of_readLocalStoragePayload
    by (auto split: if_splits)
qed

lemma isSame_self: "isSame (readLocalStoragePayload ls) (readLocalStoragePayload ls)"
  by (simp add: isSame_def list_all_iff)

lemma isSame_map_add:
  assumes "isSame cloudPayload (readLocalStoragePayload ls)"
  shows "ls ++ map_of cloudPayload = ls"
proof
  fix k
  from assms show "(ls ++ map_of cloudPayload) k = ls k"
    by (cases "map_of cloudPayload k") (auto simp: isSame_iff map_add_def)
qed

lemma Object_keys_Nil: "Object_keys p = [] \<longleftrightarrow> p = []"
  by (simp add: Object_keys_def)

subsection \<open>The steps of a pull\<close>

lemma isUpsert_simps [simp]:
  "isUpsert (Upsert u p t)"
  "\<not> isUpsert (Select u)"
  by (simp_all add: isUpsert_def)

lemma upserts_update [simp]:
  "upserts (st\<lparr>localStorage := a\<rparr>) = upserts st"
  "upserts (st\<lparr>sessionStorage := b\<rparr>) = upserts st"
  "upserts (st\<lparr>user_state := d\<rparr>) = upserts st"
  "upserts (st\<lparr>console := e\<rparr>) = upserts st"
  "upserts (st\<lparr>reloadTimers := f\<rparr>) = upserts st"
  "upserts (st\<lparr>lastPushedRef := g\<rparr>) = upserts st"
  "upserts (st\<lparr>pushingRef := h\<rparr>) = upserts st"
  "upserts (st\<lparr>status := i\<rparr>) = upserts st"
  "upserts (st\<lparr>message := j\<rparr>) = upserts st"
  "upserts (st\<lparr>lastSyncText := l\<rparr>) = upserts st"
  by (simp_all add: upserts_def)

lemma upserts_requests_update [simp]:
  "upserts (st\<lparr>requests := rs\<rparr>) = length (filter isUpsert rs)"
  by (simp add: upserts_def)

lemma upserts_fold [simp]:
  "length (filter isUpsert (requests st)) = upserts st"
  by (simp add: upserts_def)

lemma pullTick_fault:
  "pullTick (Some c) userId (Some e) now st =
     st\<lparr>requests := requests st @ [Select userId], console := console st @ [e]\<rparr>"
  by (simp add: pullTick_def pullFromCloud_def)

lemma pullTick_not_merged:
  assumes "pullOutcome (remotePayload st userId) (localStorage st) \<noteq> Merged"
  shows "pullTick (Some c) userId None now st = st\<lparr>requests := requests st @ [Select userId]\<rparr>"
  using assms
  by (auto simp: pullTick_def pullFromCloud_def pullOutcome_def remotePayload_def Let_def
           split: option.splits if_splits)

lemma pullTick_merged:
  assumes "pullOutcome (remotePayload st userId) (localStorage st) = Merged"
    and "remotePayload st userId = Some cloudPayload"
  shows "pullTick (Some c) userId None now st =
     (if canAutoReloadNow now (sessionStorage st)
      then st\<lparr>requests := requests st @ [Select userId],
              localStorage := localStorage st ++ map_of cloudPayload,
              sessionStorage := markAutoReloadNow now (sessionStorage st),
              message := M_changed_reload,
              reloadTimers := reloadTimers st @ [now]\<rparr>
      else st\<lparr>requests := requests st @ [Select userId],
              localStorage := localStorage st ++ map_of cloudPayload,
              message := M_changed_throttled\<rparr>)"
  using assms
  by (auto simp: pullTick_def pullFromCloud_def pullOutcome_def remotePayload_def Let_def
                 writeLocalStoragePayload_eq
           split: option.splits if_splits)

lemma pullOutcome_map_add:
  assumes "pullOutcome (Some cloudPayload) ls \<noteq> Merged"
  shows "ls ++ map_of cloudPayload = ls"
  using assms
  by (auto simp: pullOutcome_def Object_keys_Nil isSame_map_add split: if_splits)

lemma pullTick_localStorage:
  "localStorage (pullTick (Some c) userId None now st) =
     (case remotePayload st userId of
        None \<Rightarrow> localStorage st
      | Some cloudPayload \<Rightarrow> localStorage st ++ map_of cloudPayload)"
proof (cases "pullOutcome (remotePayload st userId) (localStorage st) = Merged")
  case True
  then obtain cloudPayload where "remotePayload st userId = Some cloudPayload"
    by (cases "remotePayload st userId") (auto simp: pullOutcome_def)
  with True show ?thesis
    by (simp add: pullTick_merged)
next
  case False
  then show ?thesis
    by (cases "remotePayload st userId") (simp_all add: pullTick_not_merged pullOutcome_map_add)
qed

lemma bootstrapMerge_eq:
  "bootstrapMerge cloudPayload' now st =
     (case pullOutcome cloudPayload' (localStorage st) of
        NoRemoteData \<Rightarrow> (False, st)
      | UpToDate \<Rightarrow> (False, st\<lparr>message := M_checked\<rparr>)
      | Merged \<Rightarrow>
          (if canAutoReloadNow now (sessionStorage st)
           then (True, st\<lparr>localStorage := localStorage st ++ map_of (the cloudPayload'),
                          sessionStorage := markAutoReloadNow now (sessionStorage st),
                          message := M_adjusted_reload,
                          reloadTimers := reloadTimers st @ [now]\<rparr>)
           else (False, st\<lparr>localStorage := localStorage st ++ map_of (the cloudPayload'),
                           message := M_adjusted_throttled\<rparr>)))"
  by (auto simp: bootstrapMerge_def pullOutcome_def Let_def writeLocalStoragePayload_eq
           split: option.splits)

lemma bootstrapMerge_localStorage:
  "localStorage (snd (bootstrapMerge cloudPayload' now st)) =
     (case cloudPayload' of None \<Rightarrow> localStorage st
      | Some cloudPayload \<Rightarrow> localStorage st ++ map_of cloudPayload)"
proof (cases cloudPayload')
  case None
  then show ?thesis by (simp add: bootstrapMerge_def)
next
  case (Some cloudPayload)
  show ?thesis
  proof (cases "pullOutcome (Some cloudPayload) (localStorage st)")
    case NoRemoteData
    then show ?thesis
      using Some pullOutcome_map_add [of cloudPayload "localStorage st"]
      by (simp add: bootstrapMerge_eq)
  next
    case UpToDate
    then show ?thesis
      using Some pullOutcome_map_add [of cloudPayload "localStorage st"]
      by (simp add: bootstrapMerge_eq)
  next
    case Merged
    then show ?thesis
      using Some by (simp add: bootstrapMerge_eq)
  qed
qed

lemma bootstrapPush_localStorage [simp]:
  "localStorage (bootstrapPush client userId fault now st) = localStorage st"
  by (simp add: bootstrapPush_def pushToCloud_def bootstrapCatch_def Let_def
           split: option.splits)

lemma pullFromCloud_ok:
  "pullFromCloud (Some c) None userId st =
     (Inr (remotePayload st userId), st\<lparr>requests := requests st @ [Select userId]\<rparr>)"
  by (simp add: pullFromCloud_def remotePayload_def Let_def split: option.splits)

lemma remotePayload_update [simp]:
  "remotePayload (st\<lparr>localStorage := a\<rparr>) = remotePayload st"
  "remotePayload (st\<lparr>sessionStorage := b\<rparr>) = remotePayload st"
  "remotePayload (st\<lparr>requests := d\<rparr>) = remotePayload st"
  "remotePayload (st\<lparr>console := e\<rparr>) = remotePayload st"
  "remotePayload (st\<lparr>reloadTimers := f\<rparr>) = remotePayload st"
  "remotePayload (st\<lparr>lastPushedRef := g\<rparr>) = remotePayload st"
  "remotePayload (st\<lparr>pushingRef := h\<rparr>) = remotePayload st"
  "remotePayload (st\<lparr>status := i\<rparr>) = remotePayload st"
  "remotePayload (st\<lparr>message := j\<rparr>) = remotePayload st"
  "remotePayload (st\<lparr>lastSyncText := l\<rparr>) = remotePayload st"
  by (simp_all add: remotePayload_def fun_eq_iff)

lemma bootstrap_ok:
  "bootstrap (Some c) (Some userId) False False None pushFault now pushedAt st =
     (case bootstrapMerge (remotePayload st userId) now
             (st\<lparr>status := S_syncing, message := M_loading,
                 requests := requests st @ [Select userId]\<rparr>) of
        (True, st2) \<Rightarrow> st2
      | (False, st2) \<Rightarrow> bootstrapPush (Some c) userId pushFault pushedAt st2)"
  by (simp add: bootstrap_def pullFromCloud_ok)

lemma bootstrap_localStorage:
  "localStorage (bootstrap (Some c) (Some userId) False False None pushFault now pushedAt st) =
     (case remotePayload st userId of
        None \<Rightarrow> localStorage st
      | Some cloudPayload \<Rightarrow> localStorage st ++ map_of cloudPayload)"
proof -
  let ?st0 = "st\<lparr>status := S_syncing, message := M_loading,
                 requests := requests st @ [Select userId]\<rparr>"
  obtain b st2 where m: "bootstrapMerge (remotePayload st userId) now ?st0 = (b, st2)"
    by (cases "bootstrapMerge (remotePayload st userId) now ?st0")
  have "localStorage st2 =
     (case remotePayload st userId of
        None \<Rightarrow> localStorage st
      | Some cloudPayload \<Rightarrow> localStorage st ++ map_of cloudPayload)"
    using bootstrapMerge_localStorage [of "remotePayload st userId" now ?st0] m
    by (simp split: option.splits)
  then show ?thesis
    by (cases b) (simp_all add: bootstrap_ok m)
qed

lemma map_add_apply:
  "(ls ++ map_of cloudPayload) k = (case map_of cloudPayload k of Some v \<Rightarrow> Some v | None \<Rightarrow> ls k)"
  by (simp add: map_add_def)

lemma supabase_None_iff: "supabase e = None \<longleftrightarrow> \<not> isSupabaseConfigured e"
  by (auto simp: supabase_def isSupabaseConfigured_def truthy_def split: option.splits)

subsection \<open>The steps of a push\<close>

lemma pushToCloud_ok:
  "pushToCloud (Some c) None now userId payload st =
     (Inr (), st\<lparr>requests := requests st @ [Upsert userId payload now],
               user_state := (user_state st)(userId \<mapsto> \<lparr>row_payload = payload, row_updated_at = now\<rparr>)\<rparr>)"
  by (simp add: pushToCloud_def Let_def)

lemma pushToCloud_fault:
  "pushToCloud (Some c) (Some e) now userId payload st =
     (Inl e, st\<lparr>requests := requests st @ [Upsert userId payload now]\<rparr>)"
  by (simp add: pushToCloud_def Let_def)

lemma pushTick_skip:
  assumes "pushingRef st \<or> JSON_stringify (readLocalStoragePayload (localStorage st)) = lastPushedRef st
             \<or> isTyping"
  shows "pushTick client userId isTyping fault now st = st\<lparr>pushingRef := False\<rparr>"
  using assms by (auto simp: pushTick_def Let_def)

lemma pushTick_pushed:
  assumes "\<not> pushingRef st"
    and "JSON_stringify (readLocalStoragePayload (localStorage st)) \<noteq> lastPushedRef st"
  shows "pushTick (Some c) userId False None now st =
     st\<lparr>requests := requests st @ [Upsert userId (readLocalStoragePayload (localStorage st)) now],
        user_state := (user_state st)(userId \<mapsto>
           \<lparr>row_payload = readLocalStoragePayload (localStorage st), row_updated_at = now\<rparr>),
        lastPushedRef := JSON_stringify (readLocalStoragePayload (localStorage st)),
        lastSyncText := Some now, status := S_ready, pushingRef := False\<rparr>"
  using assms by (simp add: pushTick_def Let_def pushToCloud_ok)

lemma pushTick_failed:
  assumes "\<not> pushingRef st"
    and "JSON_stringify (readLocalStoragePayload (localStorage st)) \<noteq> lastPushedRef st"
  shows "pushTick (Some c) userId False (Some e) now st =
     st\<lparr>requests := requests st @ [Upsert userId (readLocalStoragePayload (localStorage st)) now],
        console := console st @ [e], pushingRef := False\<rparr>"
  using assms by (simp add: pushTick_def Let_def pushToCloud_fault)

lemma pullOutcome_after_push:
  "pullOutcome (Some (readLocalStoragePayload ls)) ls =
     (if readLocalStoragePayload ls = [] then NoRemoteData else UpToDate)"
  by (simp add: pullOutcome_def isSame_self Object_keys_Nil)

lemma JSON_stringify_nonempty: "JSON_stringify payload \<noteq> []"
  by (simp add: JSON_stringify_def)

lemma snapshot_agrees_with_store:
  "\<forall>k \<in> set (Object_keys (readLocalStoragePayload ls)). map_of (readLocalStoragePayload ls) k = ls k"
  by (simp add: keys_readLocalStoragePayload map_of_readLocalStoragePayload)

lemma readLocalStoragePayload_cong:
  assumes "\<forall>k \<in> set SYNC_KEYS. ls' k = ls k"
  shows "readLocalStoragePayload ls' = readLocalStoragePayload ls"
  unfolding readLocalStoragePayload_def
  using assms by (intro fold_cong) (auto split: option.splits)

subsection \<open>Keys a sync leaves alone\<close>

lemma pullTick_None: "pullTick None userId fault now st = st"
  by (simp add: pullTick_def pullFromCloud_def)

lemma pullTick_frame:
  assumes "\<forall>cloudPayload. remotePayload st userId = Some cloudPayload \<longrightarrow> k \<notin> set (Object_keys cloudPayload)"
  shows "localStorage (pullTick client userId fault now st) k = localStorage st k"
proof (cases client)
  case None
  then show ?thesis by (simp add: pullTick_None)
next
  case (Some c)
  show ?thesis
  proof (cases fault)
    case (Some e)
    with \<open>client = Some c\<close> show ?thesis by (simp add: pullTick_fault)
  next
    case None
    show ?thesis
    proof (cases "remotePayload st userId")
      case None
      with \<open>client = Some c\<close> \<open>fault = None\<close> show ?thesis
        by (simp add: pullTick_localStorage)
    next
      case (Some cloudPayload)
      with assms have "k \<notin> set (Object_keys cloudPayload)" by simp
      then have "map_of cloudPayload k = None"
        by (simp add: Object_keys_def map_of_eq_None_iff)
      with Some \<open>client = Some c\<close> \<open>fault = None\<close> show ?thesis
        by (simp add: pullTick_localStorage map_add_apply)
    qed
  qed
qed

lemma bootstrapCatch_localStorage [simp]:
  "localStorage (bootstrapCatch e st) = localStorage st"
  by (simp add: bootstrapCatch_def)

lemma bootstrap_frame:
  assumes "\<forall>cloudPayload. remotePayload st userId = Some cloudPayload \<longrightarrow> k \<notin> set (Object_keys cloudPayload)"
  shows "localStorage (bootstrap client (Some userId) loading cancelled pullFault pushFault now pushedAt st) k
           = localStorage st k"
proof (cases "loading \<or> client = None \<or> cancelled \<or> pullFault \<noteq> None")
  case True
  then show ?thesis
    by (auto simp: bootstrap_def pullFromCloud_def Let_def split: option.splits)
next
  case False
  then obtain c where c: "client = Some c" and rest: "\<not> loading" "\<not> cancelled" "pullFault = None"
    by auto
  show ?thesis
  proof (cases "remotePayload st userId")
    case None
    then show ?thesis
      using c rest by (simp add: bootstrap_localStorage)
  next
    case (Some cloudPayload)
    with assms have "k \<notin> set (Object_keys cloudPayload)" by simp
    then have "map_of cloudPayload k = None"
      by (simp add: Object_keys_def map_of_eq_None_iff)
    with Some c rest show ?thesis
      by (simp add: bootstrap_localStorage map_add_apply)
  qed
qed

lemma pushTick_localStorage [simp]:
  "localStorage (pushTick client userId isTyping fault now st) = localStorage st"
  by (simp add: pushTick_def pushToCloud_def Let_def split: option.splits)

lemma onlySyncedKeys_read [simp]:
  "onlySyncedKeys (Upsert userId (readLocalStoragePayload ls) now)"
  by (auto simp: onlySyncedKeys_def keys_readLocalStoragePayload)

lemma onlySyncedKeys_Select [simp]: "onlySyncedKeys (Select userId)"
  by (simp add: onlySyncedKeys_def)

lemma pushTick_onlySyncedKeys:
  assumes "list_all onlySyncedKeys (requests st)"
  shows "list_all onlySyncedKeys (requests (pushTick client userId isTyping fault now st))"
  using assms
  by (simp add: pushTick_def pushToCloud_def Let_def split: option.splits)

lemma pullTick_onlySyncedKeys:
  assumes "list_all onlySyncedKeys (requests st)"
  shows "list_all onlySyncedKeys (requests (pullTick client userId fault now st))"
  using assms
  by (simp add: pullTick_def pullFromCloud_def Let_def split: option.splits)

lemma bootstrapMerge_requests [simp]:
  "requests (snd (bootstrapMerge cloudPayload' now st)) = requests st"
  by (simp add: bootstrapMerge_def Let_def split: option.splits)

lemma bootstrapPush_onlySyncedKeys:
  assumes "list_all onlySyncedKeys (requests st)"
  shows "list_all onlySyncedKeys (requests (bootstrapPush client userId fault now st))"
  using assms
  by (simp add: bootstrapPush_def pushToCloud_def bootstrapCatch_def Let_def split: option.splits)

lemma bootstrap_onlySyncedKeys:
  assumes "list_all onlySyncedKeys (requests st)"
  shows "list_all onlySyncedKeys
           (requests (bootstrap client user loading cancelled pullFault pushFault now pushedAt st))"
proof -
  have "list_all onlySyncedKeys (requests (bootstrapPush client userId pushFault pushedAt st2))"
    if "bootstrapMerge cp now st1 = (b, st2)" "list_all onlySyncedKeys (requests st1)"
    for cp st1 b st2 userId
    using that bootstrapMerge_requests [of cp now st1]
    by (simp add: bootstrapPush_onlySyncedKeys)
  moreover have "list_all onlySyncedKeys (requests st2)"
    if "bootstrapMerge cp now st1 = (b, st2)" "list_all onlySyncedKeys (requests st1)"
    for cp st1 b st2
    using that bootstrapMerge_requests [of cp now st1] by simp
  ultimately show ?thesis
    using assms
    by (auto simp: bootstrap_def pullFromCloud_def bootstrapCatch_def Let_def
             split: option.splits prod.splits sum.splits bool.splits)
qed

subsection \<open>Pushes and reloads of the bootstrap\<close>

lemma upserts_mount [simp]: "upserts (mount ls ss tbl) = 0"
  by (simp add: mount_def upserts_def del: upserts_fold)

lemma bootstrapMerge_upserts [simp]:
  "upserts (snd (bootstrapMerge cloudPayload' now st)) = upserts st"
  by (simp add: bootstrapMerge_def Let_def split: option.splits)

lemma bootstrapPush_upserts [simp]:
  "upserts (bootstrapPush (Some c) userId fault now st) = upserts st + 1"
  by (cases fault) (simp_all add: bootstrapPush_def pushToCloud_ok pushToCloud_fault bootstrapCatch_def Let_def)

lemma bootstrapPush_reloadTimers [simp]:
  "reloadTimers (bootstrapPush client userId fault now st) = reloadTimers st"
  by (simp add: bootstrapPush_def pushToCloud_def bootstrapCatch_def Let_def split: option.splits)

lemma bootstrap_upserts:
  "upserts (bootstrap (Some c) (Some userId) False False None pushFault now pushedAt st)
     = (if pullOutcome (remotePayload st userId) (localStorage st) = Merged
           \<and> canAutoReloadNow now (sessionStorage st)
        then upserts st else upserts st + 1)"
proof (cases "pullOutcome (remotePayload st userId) (localStorage st)")
  case NoRemoteData
  then show ?thesis by (simp add: bootstrap_ok bootstrapMerge_eq)
next
  case UpToDate
  then show ?thesis by (simp add: bootstrap_ok bootstrapMerge_eq)
next
  case Merged
  then show ?thesis by (simp add: bootstrap_ok bootstrapMerge_eq)
qed

lemma bootstrap_reloadTimers:
  "reloadTimers (bootstrap (Some c) (Some userId) False False None pushFault now pushedAt st)
     = (if pullOutcome (remotePayload st userId) (localStorage st) = Merged
           \<and> canAutoReloadNow now (sessionStorage st)
        then reloadTimers st @ [now] else reloadTimers st)"
proof (cases "pullOutcome (remotePayload st userId) (localStorage st)")
  case NoRemoteData
  then show ?thesis by (simp add: bootstrap_ok bootstrapMerge_eq)
next
  case UpToDate
  then show ?thesis by (simp add: bootstrap_ok bootstrapMerge_eq)
next
  case Merged
  then show ?thesis by (simp add: bootstrap_ok bootstrapMerge_eq)
qed

subsection \<open>Empty and missing rows\<close>

lemma pullTick_empty_row:
  assumes "remotePayload st userId = Some []"
  shows "pullTick client userId fault now st
           = (case client of None \<Rightarrow> st
              | Some c \<Rightarrow> (case fault of
                    None \<Rightarrow> st\<lparr>requests := requests st @ [Select userId]\<rparr>
                  | Some e \<Rightarrow> st\<lparr>requests := requests st @ [Select userId], console := console st @ [e]\<rparr>))"
  using assms
  by (auto simp: pullTick_def pullFromCloud_def remotePayload_def Object_keys_def Let_def
           split: option.splits)

lemma pullTick_no_row:
  assumes "remotePayload st userId = None"
  shows "pullTick client userId fault now st
           = (case client of None \<Rightarrow> st
              | Some c \<Rightarrow> (case fault of
                    None \<Rightarrow> st\<lparr>requests := requests st @ [Select userId]\<rparr>
                  | Some e \<Rightarrow> st\<lparr>requests := requests st @ [Select userId], console := console st @ [e]\<rparr>))"
  using assms
  by (auto simp: pullTick_def pullFromCloud_def remotePayload_def Let_def
           split: option.splits)

lemma bootstrap_no_merge:
  assumes "pullOutcome (remotePayload st userId) (localStorage st) = NoRemoteData"
  shows "bootstrap (Some c) (Some userId) False False None None now pushedAt st
           = st\<lparr>requests := requests st @ [Select userId,
                                Upsert userId (readLocalStoragePayload (localStorage st)) pushedAt],
                 user_state := (user_state st)(userId \<mapsto>
                    \<lparr>row_payload = readLocalStoragePayload (localStorage st), row_updated_at = pushedAt\<rparr>),
                 lastPushedRef := JSON_stringify (readLocalStoragePayload (localStorage st)),
                 lastSyncText := Some pushedAt, status := S_ready, message := M_sync_on\<rparr>"
  using assms
  by (simp add: bootstrap_ok bootstrapMerge_eq bootstrapPush_def pushToCloud_ok Let_def)

subsection \<open>The reload throttle\<close>

lemma spaced_le_last:
  assumes "spaced ts" and "t \<in> set ts"
  shows "t \<le> last ts"
proof -
  from assms(2) obtain i where i: "i < length ts" "ts ! i = t"
    by (auto simp: in_set_conv_nth)
  then have ne: "ts \<noteq> []"
    by auto
  show ?thesis
  proof (cases "i = length ts - 1")
    case True
    with i show ?thesis
      by (simp add: last_conv_nth [OF ne])
  next
    case False
    with i have lt: "i < length ts - 1" "length ts - 1 < length ts"
      by simp_all
    with assms(1) have "ts ! (length ts - 1) - ts ! i \<ge> AUTO_RELOAD_INTERVAL_MS"
      unfolding spaced_def sorted_wrt_iff_nth_less by blast
    then show ?thesis
      using i by (simp add: last_conv_nth [OF ne] AUTO_RELOAD_INTERVAL_MS_def)
  qed
qed

lemma throttleInv_reload:
  assumes "throttleInv ss ts" and "canAutoReloadNow now ss"
  shows "throttleInv (markAutoReloadNow now ss) (ts @ [now])"
proof -
  from assms(1) have w: "\<not> readThrows ss" "\<not> writeThrows ss" and sp: "spaced ts"
    and it: "ts \<noteq> [] \<longrightarrow> item ss = Some (last ts)"
    by (simp_all add: throttleInv_def)
  have "now - t \<ge> AUTO_RELOAD_INTERVAL_MS" if "t \<in> set ts" for t
  proof -
    from that have "ts \<noteq> []" by auto
    with it have "item ss = Some (last ts)" by simp
    with assms(2) w have "now - last ts \<ge> AUTO_RELOAD_INTERVAL_MS"
      by (simp add: canAutoReloadNow_def getLastAutoReloadAt_def)
    moreover have "t \<le> last ts"
      using sp that by (rule spaced_le_last)
    ultimately show ?thesis by simp
  qed
  with sp have "spaced (ts @ [now])"
    by (simp add: spaced_def sorted_wrt_append)
  with w show ?thesis
    by (simp add: throttleInv_def markAutoReloadNow_def)
qed

lemma pullTick_throttle:
  "(sessionStorage (pullTick client userId fault now st) = sessionStorage st
      \<and> reloadTimers (pullTick client userId fault now st) = reloadTimers st)
   \<or> (canAutoReloadNow now (sessionStorage st)
      \<and> sessionStorage (pullTick client userId fault now st) = markAutoReloadNow now (sessionStorage st)
      \<and> reloadTimers (pullTick client userId fault now st) = reloadTimers st @ [now])"
  by (simp add: pullTick_def pullFromCloud_def Let_def split: option.splits)

lemma bootstrapMerge_throttle:
  "(sessionStorage (snd (bootstrapMerge cp now st)) = sessionStorage st
      \<and> reloadTimers (snd (bootstrapMerge cp now st)) = reloadTimers st)
   \<or> (canAutoReloadNow now (sessionStorage st)
      \<and> sessionStorage (snd (bootstrapMerge cp now st)) = markAutoReloadNow now (sessionStorage st)
      \<and> reloadTimers (snd (bootstrapMerge cp now st)) = reloadTimers st @ [now])"
  by (simp add: bootstrapMerge_def Let_def split: option.splits)

lemma bootstrapPush_sessionStorage [simp]:
  "sessionStorage (bootstrapPush client userId fault now st) = sessionStorage st"
  by (simp add: bootstrapPush_def pushToCloud_def bootstrapCatch_def Let_def split: option.splits)

lemma bootstrap_throttle:
  "(sessionStorage (bootstrap client user loading cancelled pullFault pushFault now pushedAt st)
        = sessionStorage st
      \<and> reloadTimers (bootstrap client user loading cancelled pullFault pushFault now pushedAt st)
        = reloadTimers st)
   \<or> (canAutoReloadNow now (sessionStorage st)
      \<and> sessionStorage (bootstrap client user loading cancelled pullFault pushFault now pushedAt st)
        = markAutoReloadNow now (sessionStorage st)
      \<and> reloadTimers (bootstrap client user loading cancelled pullFault pushFault now pushedAt st)
        = reloadTimers st @ [now])"
proof -
  have merge: "(sessionStorage st2 = sessionStorage st1 \<and> reloadTimers st2 = reloadTimers st1)
       \<or> (canAutoReloadNow now (sessionStorage st1)
            \<and> sessionStorage st2 = markAutoReloadNow now (sessionStorage st1)
            \<and> reloadTimers st2 = reloadTimers st1 @ [now])"
    if "bootstrapMerge cp now st1 = (b, st2)" for cp st1 b st2
    using bootstrapMerge_throttle [of cp now st1] that by simp
  show ?thesis
    by (auto simp: bootstrap_def pullFromCloud_def bootstrapCatch_def Let_def
             split: option.splits prod.splits sum.splits bool.splits dest!: merge)
qed

lemma pushTick_throttle [simp]:
  "sessionStorage (pushTick client userId isTyping fault now st) = sessionStorage st"
  "reloadTimers (pushTick client userId isTyping fault now st) = reloadTimers st"
  by (simp_all add: pushTick_def pushToCloud_def Let_def split: option.splits)

lemma act_throttleInv:
  assumes "throttleInv (sessionStorage st) (reloadTimers st)"
  shows "throttleInv (sessionStorage (act client userId a st)) (reloadTimers (act client userId a st))"
proof (cases a)
  case (Bootstrap cancelled pullFault pushFault now pushedAt)
  then show ?thesis
    using assms bootstrap_throttle [of client "Some userId" False cancelled pullFault pushFault now pushedAt st]
    by (auto simp: throttleInv_reload)
next
  case (PullTick fault now)
  then show ?thesis
    using assms pullTick_throttle [of client userId fault now st]
    by (auto simp: periodicPull_def throttleInv_reload)
next
  case (PushTick isTyping fault now)
  then show ?thesis
    using assms by (simp add: periodicPush_def)
next
  case (OtherWriters ls tbl)
  then show ?thesis
    using assms by simp
next
  case PageReload
  then show ?thesis
    using assms by (simp add: pageReload_def mount_def)
qed

lemma run_throttleInv:
  assumes "throttleInv (sessionStorage st) (reloadTimers st)"
  shows "throttleInv (sessionStorage (run client userId acts st)) (reloadTimers (run client userId acts st))"
  using assms unfolding run_def
  by (induction acts arbitrary: st) (simp_all add: act_throttleInv)

lemma canAutoReloadNow_marked:
  assumes "\<not> readThrows ss" and "item ss = Some t1"
  shows "canAutoReloadNow t2 ss \<longleftrightarrow> t2 - t1 \<ge> AUTO_RELOAD_INTERVAL_MS"
  using assms by (simp add: canAutoReloadNow_def getLastAutoReloadAt_def)

lemma canAutoReloadNow_blocked:
  assumes "readThrows ss"
  shows "canAutoReloadNow now ss \<longleftrightarrow> now \<ge> AUTO_RELOAD_INTERVAL_MS"
  using assms by (simp add: canAutoReloadNow_def getLastAutoReloadAt_def)

lemma pullTick_merged_reloadTimers:
  assumes "pullOutcome (remotePayload st userId) (localStorage st) = Merged"
  shows "reloadTimers (pullTick (Some c) userId None now st)
           = (if canAutoReloadNow now (sessionStorage st) then reloadTimers st @ [now] else reloadTimers st)"
    and "sessionStorage (pullTick (Some c) userId None now st)
           = (if canAutoReloadNow now (sessionStorage st) then markAutoReloadNow now (sessionStorage st)
              else sessionStorage st)"
    and "message (pullTick (Some c) userId None now st)
           = (if canAutoReloadNow now (sessionStorage st) then M_changed_reload else M_changed_throttled)"
proof -
  from assms obtain cloudPayload where "remotePayload st userId = Some cloudPayload"
    by (cases "remotePayload st userId") (auto simp: pullOutcome_def)
  with assms show
    "reloadTimers (pullTick (Some c) userId None now st)
           = (if canAutoReloadNow now (sessionStorage st) then reloadTimers st @ [now] else reloadTimers st)"
    "sessionStorage (pullTick (Some c) userId None now st)
           = (if canAutoReloadNow now (sessionStorage st) then markAutoReloadNow now (sessionStorage st)
              else sessionStorage st)"
    "message (pullTick (Some c) userId None now st)
           = (if canAutoReloadNow now (sessionStorage st) then M_changed_reload else M_changed_throttled)"
    by (simp_all add: pullTick_merged)
qed

lemma pageReload_fields [simp]:
  "localStorage (pageReload st) = localStorage st"
  "sessionStorage (pageReload st) = sessionStorage st"
  "reloadTimers (pageReload st) = reloadTimers st"
  "remotePayload (pageReload st) = remotePayload st"
  by (simp_all add: pageReload_def mount_def remotePayload_def fun_eq_iff)

lemma throttleInv_mount:
  "throttleInv (sessionStorage (mount ls \<lparr>readThrows = False, writeThrows = False, item = it\<rparr> tbl))
     (reloadTimers (mount ls \<lparr>readThrows = False, writeThrows = False, item = it\<rparr> tbl))"
  by (simp add: throttleInv_def spaced_def mount_def)

lemma pullOutcome_differs:
  assumes "map_of cloudPayload k = Some v" and "ls k \<noteq> Some v"
  shows "pullOutcome (Some cloudPayload) ls = Merged"
proof -
  from assms(1) have "cloudPayload \<noteq> []"
    by auto
  moreover have "\<not> isSame cloudPayload (readLocalStoragePayload ls)"
    using assms by (auto simp: isSame_iff)
  ultimately show ?thesis
    by (simp add: pullOutcome_def Object_keys_Nil)
qed

lemma not_spaced_pair:
  assumes "t' - t < AUTO_RELOAD_INTERVAL_MS"
  shows "\<not> spaced [t, t']"
  using assms by (simp add: spaced_def)

lemma signOut_fields [simp]:
  "localStorage (signOut client st) = localStorage st"
  "reloadTimers (signOut client st) = reloadTimers st"
  "remotePayload (signOut client st) = remotePayload st"
  "sessionStorage (signOut (Some c) st) = clearAutoReloadMark (sessionStorage st)"
  by (simp_all add: signOut_def remotePayload_def fun_eq_iff split: option.splits)

subsection \<open>A reload loop\<close>

lemma pullOutcome_unsynced_key:
  assumes "map_of cloudPayload k = Some v" and "k \<notin> set SYNC_KEYS"
  shows "pullOutcome (Some cloudPayload) ls = Merged"
proof -
  from assms(1) have "cloudPayload \<noteq> []"
    by auto
  moreover have "\<not> isSame cloudPayload (readLocalStoragePayload ls)"
    using assms by (auto simp: isSame_iff)
  ultimately show ?thesis
    by (simp add: pullOutcome_def Object_keys_Nil)
qed

lemma bootstrap_reload_branch:
  assumes "pullOutcome (remotePayload st userId) (localStorage st) = Merged"
    and "canAutoReloadNow now (sessionStorage st)"
  shows "sessionStorage (bootstrap (Some c) (Some userId) False False None pushFault now pushedAt st)
           = markAutoReloadNow now (sessionStorage st)"
    and "user_state (bootstrap (Some c) (Some userId) False False None pushFault now pushedAt st)
           = user_state st"
  using assms by (simp_all add: bootstrap_ok bootstrapMerge_eq)

lemma pageReload_user_state [simp]: "user_state (pageReload st) = user_state st"
  by (simp add: pageReload_def mount_def)

lemma remotePayload_cong:
  assumes "user_state st' = user_state st"
  shows "remotePayload st' userId = remotePayload st userId"
  using assms by (simp add: remotePayload_def)

text \<open>
  With the storage blocked and a row that holds a key outside the synced key set, every
  bootstrap finds a difference (the snapshot never has that key), schedules a reload, and
  the reloaded page starts the same bootstrap again: one reload for each round, for as
  many rounds as one cares to run.
\<close>

lemma blocked_storage_reload_loop:
  assumes "readThrows (sessionStorage st)" and "writeThrows (sessionStorage st)"
    and "remotePayload st userId = Some cloudPayload"
    and "map_of cloudPayload k = Some v" and "k \<notin> set SYNC_KEYS"
    and "\<forall>t \<in> set ts. AUTO_RELOAD_INTERVAL_MS \<le> t"
  shows "reloadTimers
           (run (Some c) userId (concat (map (\<lambda>t. [Bootstrap False None pushFault t t, PageReload]) ts)) st)
         = reloadTimers st @ ts"
  using assms
proof (induction ts arbitrary: st)
  case Nil
  then show ?case by (simp add: run_def)
next
  case (Cons t ts)
  let ?b = "bootstrap (Some c) (Some userId) False False None pushFault t t st"
  let ?st' = "pageReload ?b"
  have merged: "pullOutcome (remotePayload st userId) (localStorage st) = Merged"
    using Cons.prems(3-5) by (simp add: pullOutcome_unsynced_key)
  have can: "canAutoReloadNow t (sessionStorage st)"
    using Cons.prems(1,6) by (simp add: canAutoReloadNow_blocked)
  have ss: "sessionStorage ?b = sessionStorage st"
    using Cons.prems(2) by (simp add: bootstrap_reload_branch [OF merged can] markAutoReloadNow_def)
  have tbl: "remotePayload ?b userId = Some cloudPayload"
    using Cons.prems(3)
    by (simp add: remotePayload_cong [of ?b st] bootstrap_reload_branch [OF merged can])
  have rt: "reloadTimers ?b = reloadTimers st @ [t]"
    using merged can by (simp add: bootstrap_reloadTimers)
  have "reloadTimers (run (Some c) userId
          (concat (map (\<lambda>t. [Bootstrap False None pushFault t t, PageReload]) ts)) ?st')
        = reloadTimers ?st' @ ts"
    using Cons.prems by (intro Cons.IH) (simp_all add: ss tbl)
  then show ?case
    by (simp add: run_def rt)
qed

lemma bootstrap_cancelled:
  "bootstrap (Some c) (Some userId) False True None pushFault now pushedAt st
     = st\<lparr>status := S_syncing, message := M_loading, requests := requests st @ [Select userId]\<rparr>"
  by (simp add: bootstrap_def pullFromCloud_ok)

section \<open>The claims\<close>

text \<open>
  C1. Take any state in which the push tick reaches the backend (no push in flight, the
  digest differs from the last pushed one, the focus is not in a text field) and let
  the upsert succeed. A pull tick that follows, with nothing written in between, is
  answered with exactly the snapshot that was pushed; every key of that answer has in
  \<^verbatim>\<open>localStorage\<close> the value the answer carries, so the pull is not a merge: it is
  \<open>UpToDate\<close> (or, when the snapshot has no key at all, it leaves through the guard
  for an empty answer). The tick changes nothing but the list of requests:
  \<^verbatim>\<open>localStorage\<close> stays as it was and no reload is scheduled.
\<close>

theorem C1_push_then_pull_is_up_to_date:
  assumes "\<not> pushingRef st"
    and "JSON_stringify (readLocalStoragePayload (localStorage st)) \<noteq> lastPushedRef st"
    and "st1 = pushTick (Some c) userId False None pushedAt st"
  shows "upserts st1 = upserts st + 1
       \<and> remotePayload st1 userId = Some (readLocalStoragePayload (localStorage st1))
       \<and> (\<forall>k \<in> set (Object_keys (readLocalStoragePayload (localStorage st1))).
             map_of (readLocalStoragePayload (localStorage st1)) k = localStorage st1 k)
       \<and> pullOutcome (remotePayload st1 userId) (localStorage st1)
            = (if readLocalStoragePayload (localStorage st1) = [] then NoRemoteData else UpToDate)
       \<and> pullTick (Some c) userId None now st1 = st1\<lparr>requests := requests st1 @ [Select userId]\<rparr>
       \<and> localStorage (pullTick (Some c) userId None now st1) = localStorage st
       \<and> reloadTimers (pullTick (Some c) userId None now st1) = reloadTimers st"
proof -
  have st1: "st1 = st\<lparr>requests := requests st @ [Upsert userId (readLocalStoragePayload (localStorage st)) pushedAt],
        user_state := (user_state st)(userId \<mapsto>
           \<lparr>row_payload = readLocalStoragePayload (localStorage st), row_updated_at = pushedAt\<rparr>),
        lastPushedRef := JSON_stringify (readLocalStoragePayload (localStorage st)),
        lastSyncText := Some pushedAt, status := S_ready, pushingRef := False\<rparr>"
    using assms by (simp add: pushTick_pushed)
  have ls: "localStorage st1 = localStorage st" and rt: "reloadTimers st1 = reloadTimers st"
    by (simp_all add: st1)
  have up: "upserts st1 = upserts st + 1"
    by (simp add: st1)
  have remote: "remotePayload st1 userId = Some (readLocalStoragePayload (localStorage st1))"
    by (simp add: st1 remotePayload_def)
  have out: "pullOutcome (remotePayload st1 userId) (localStorage st1)
            = (if readLocalStoragePayload (localStorage st1) = [] then NoRemoteData else UpToDate)"
    by (simp only: remote pullOutcome_after_push)
  then have "pullOutcome (remotePayload st1 userId) (localStorage st1) \<noteq> Merged"
    by (simp split: if_splits)
  then have tick: "pullTick (Some c) userId None now st1 = st1\<lparr>requests := requests st1 @ [Select userId]\<rparr>"
    by (rule pullTick_not_merged)
  show ?thesis
    using up remote out tick ls rt snapshot_agrees_with_store [of "localStorage st1"] by simp
qed

theorem C1_push_then_pull_is_up_to_date_witness:
  "let st = mount (Map.empty(''bankAccounts'' \<mapsto> ''v1'', ''theme'' \<mapsto> ''dark''))
              \<lparr>readThrows = False, writeThrows = False, item = None\<rparr> Map.empty;
       c = createClient ''url'' ''key''
   in \<not> pushingRef st
    \<and> JSON_stringify (readLocalStoragePayload (localStorage st)) \<noteq> lastPushedRef st
    \<and> localStorage (pullTick (Some c) ''u1'' None 7200000 (pushTick (Some c) ''u1'' False None 20000 st))
         = localStorage st
    \<and> reloadTimers (pullTick (Some c) ''u1'' None 7200000 (pushTick (Some c) ''u1'' False None 20000 st))
         = reloadTimers st"
proof -
  let ?st = "mount (Map.empty(''bankAccounts'' \<mapsto> ''v1'', ''theme'' \<mapsto> ''dark''))
               \<lparr>readThrows = False, writeThrows = False, item = None\<rparr> Map.empty"
  let ?c = "createClient ''url'' ''key''"
  have h1: "\<not> pushingRef ?st"
    by (simp add: mount_def)
  have h2: "JSON_stringify (readLocalStoragePayload (localStorage ?st)) \<noteq> lastPushedRef ?st"
    by (simp add: mount_def JSON_stringify_nonempty)
  note t = C1_push_then_pull_is_up_to_date [OF h1 h2 refl, of ?c "''u1''" 20000 7200000]
  from t have c1: "localStorage (pullTick (Some ?c) ''u1'' None 7200000 (pushTick (Some ?c) ''u1'' False None 20000 ?st))
         = localStorage ?st"
    by (elim conjE)
  from t have c2: "reloadTimers (pullTick (Some ?c) ''u1'' None 7200000 (pushTick (Some ?c) ''u1'' False None 20000 ?st))
         = reloadTimers ?st"
    by (elim conjE)
  show ?thesis
    unfolding Let_def using h1 h2 c1 c2 by (intro conjI)
qed

text \<open>
  C2. A pull that is answered with a payload leaves \<^verbatim>\<open>localStorage\<close> holding, at
  every key of the payload, the payload's value, and at every other key the value it
  had before: nothing is deleted and no key outside the payload is modified. This holds
  for the periodic pull and for the pull of the bootstrap, whichever way they go (equal
  payloads included, where the values are there already).
\<close>

theorem C2_pull_overwrites_exactly_remote_keys:
  assumes "remotePayload st userId = Some cloudPayload"
  shows "localStorage (pullTick (Some c) userId None now st) k
           = (case map_of cloudPayload k of Some v \<Rightarrow> Some v | None \<Rightarrow> localStorage st k)
       \<and> localStorage (bootstrap (Some c) (Some userId) False False None pushFault now pushedAt st) k
           = (case map_of cloudPayload k of Some v \<Rightarrow> Some v | None \<Rightarrow> localStorage st k)"
  using assms by (simp add: pullTick_localStorage bootstrap_localStorage map_add_apply)

theorem C2_pull_overwrites_exactly_remote_keys_witness:
  "remotePayload
     (mount (Map.empty(''bankAccounts'' \<mapsto> ''old'', ''stockPortfolio'' \<mapsto> ''sp''))
        \<lparr>readThrows = False, writeThrows = False, item = None\<rparr>
        (Map.empty(''u1'' \<mapsto> \<lparr>row_payload = [(''bankAccounts'', ''v1''), (''assetTrend'', ''a'')], row_updated_at = 0\<rparr>)))
     ''u1'' = Some [(''bankAccounts'', ''v1''), (''assetTrend'', ''a'')]
   \<and> localStorage (pullTick (Some (createClient ''url'' ''key'')) ''u1'' None 5000000
       (mount (Map.empty(''bankAccounts'' \<mapsto> ''old'', ''stockPortfolio'' \<mapsto> ''sp''))
        \<lparr>readThrows = False, writeThrows = False, item = None\<rparr>
        (Map.empty(''u1'' \<mapsto> \<lparr>row_payload = [(''bankAccounts'', ''v1''), (''assetTrend'', ''a'')], row_updated_at = 0\<rparr>))))
       ''bankAccounts'' = Some ''v1''
   \<and> localStorage (pullTick (Some (createClient ''url'' ''key'')) ''u1'' None 5000000
       (mount (Map.empty(''bankAccounts'' \<mapsto> ''old'', ''stockPortfolio'' \<mapsto> ''sp''))
        \<lparr>readThrows = False, writeThrows = False, item = None\<rparr>
        (Map.empty(''u1'' \<mapsto> \<lparr>row_payload = [(''bankAccounts'', ''v1''), (''assetTrend'', ''a'')], row_updated_at = 0\<rparr>))))
       ''stockPortfolio'' = Some ''sp''"
proof -
  let ?st = "mount (Map.empty(''bankAccounts'' \<mapsto> ''old'', ''stockPortfolio'' \<mapsto> ''sp''))
        \<lparr>readThrows = False, writeThrows = False, item = None\<rparr>
        (Map.empty(''u1'' \<mapsto> \<lparr>row_payload = [(''bankAccounts'', ''v1''), (''assetTrend'', ''a'')], row_updated_at = 0\<rparr>))"
  have h: "remotePayload ?st ''u1'' = Some [(''bankAccounts'', ''v1''), (''assetTrend'', ''a'')]"
    by (simp add: remotePayload_def mount_def)
  have ls: "localStorage ?st ''stockPortfolio'' = Some ''sp''"
    by (simp add: mount_def)
  show ?thesis
    using h ls
      C2_pull_overwrites_exactly_remote_keys [OF h, of "createClient ''url'' ''key''" 5000000 "''bankAccounts''"]
      C2_pull_overwrites_exactly_remote_keys [OF h, of "createClient ''url'' ''key''" 5000000 "''stockPortfolio''"]
    by simp
qed

text \<open>
  C3 (as the code has it). A snapshot read for a push has synced keys only, so every
  request the push tick, the bootstrap and the pull tick send keeps to the synced key
  set. On the way in, the code writes every key of the pulled payload, whatever the key
  is: a pull modifies no key that the payload does not supply. Hence, whenever the row of
  the user holds synced keys only (as every row written by this code does), a key outside
  the synced key set keeps its local value through the pull tick, the bootstrap and the
  push tick.
\<close>

theorem C3_sync_confined_to_payload_keys:
  assumes "\<forall>cloudPayload. remotePayload st userId = Some cloudPayload
             \<longrightarrow> set (Object_keys cloudPayload) \<subseteq> set SYNC_KEYS"
    and "k \<notin> set SYNC_KEYS"
    and "list_all onlySyncedKeys (requests st)"
  shows "set (Object_keys (readLocalStoragePayload (localStorage st))) \<subseteq> set SYNC_KEYS
       \<and> list_all onlySyncedKeys (requests (pushTick client userId isTyping fault now st))
       \<and> list_all onlySyncedKeys
            (requests (bootstrap client (Some userId) loading cancelled pullFault pushFault now pushedAt st))
       \<and> list_all onlySyncedKeys (requests (pullTick client userId fault now st))
       \<and> localStorage (pullTick client userId fault now st) k = localStorage st k
       \<and> localStorage (bootstrap client (Some userId) loading cancelled pullFault pushFault now pushedAt st) k
            = localStorage st k
       \<and> localStorage (pushTick client userId isTyping fault now st) k = localStorage st k"
proof -
  have frame: "\<forall>cloudPayload. remotePayload st userId = Some cloudPayload
                 \<longrightarrow> k \<notin> set (Object_keys cloudPayload)"
    using assms(1,2) by blast
  have "set (Object_keys (readLocalStoragePayload (localStorage st))) \<subseteq> set SYNC_KEYS"
    by (auto simp: keys_readLocalStoragePayload)
  moreover note pushTick_onlySyncedKeys [OF assms(3)] bootstrap_onlySyncedKeys [OF assms(3)]
    pullTick_onlySyncedKeys [OF assms(3)] pullTick_frame [OF frame] bootstrap_frame [OF frame]
  ultimately show ?thesis
    by simp
qed

theorem C3_sync_confined_to_payload_keys_witness:
  "let st = mount (Map.empty(''bankAccounts'' \<mapsto> ''old'', ''theme'' \<mapsto> ''dark''))
              \<lparr>readThrows = False, writeThrows = False, item = None\<rparr>
              (Map.empty(''u1'' \<mapsto> \<lparr>row_payload = [(''bankAccounts'', ''v1'')], row_updated_at = 0\<rparr>));
       c = createClient ''url'' ''key''
   in (\<forall>cloudPayload. remotePayload st ''u1'' = Some cloudPayload
          \<longrightarrow> set (Object_keys cloudPayload) \<subseteq> set SYNC_KEYS)
    \<and> ''theme'' \<notin> set SYNC_KEYS
    \<and> list_all onlySyncedKeys (requests st)
    \<and> localStorage (pullTick (Some c) ''u1'' None 7200000 st) ''theme'' = localStorage st ''theme''
    \<and> list_all onlySyncedKeys (requests (pushTick (Some c) ''u1'' False None 20000 st))"
proof -
  let ?st = "mount (Map.empty(''bankAccounts'' \<mapsto> ''old'', ''theme'' \<mapsto> ''dark''))
              \<lparr>readThrows = False, writeThrows = False, item = None\<rparr>
              (Map.empty(''u1'' \<mapsto> \<lparr>row_payload = [(''bankAccounts'', ''v1'')], row_updated_at = 0\<rparr>))"
  let ?c = "createClient ''url'' ''key''"
  have h1: "\<forall>cloudPayload. remotePayload ?st ''u1'' = Some cloudPayload
             \<longrightarrow> set (Object_keys cloudPayload) \<subseteq> set SYNC_KEYS"
    by (simp add: remotePayload_def mount_def Object_keys_def SYNC_KEYS_list)
  have h2: "''theme'' \<notin> set SYNC_KEYS"
    by (simp add: SYNC_KEYS_list)
  have h3: "list_all onlySyncedKeys (requests ?st)"
    by (simp add: mount_def)
  note t = C3_sync_confined_to_payload_keys [OF h1 h2 h3, of "Some ?c" False None 7200000 False False None None 7200000]
  from t have c1: "localStorage (pullTick (Some ?c) ''u1'' None 7200000 ?st) ''theme'' = localStorage ?st ''theme''"
    by (elim conjE)
  note t' = C3_sync_confined_to_payload_keys [OF h1 h2 h3, of "Some ?c" False None 20000 False False None None 7200000]
  from t' have c2: "list_all onlySyncedKeys (requests (pushTick (Some ?c) ''u1'' False None 20000 ?st))"
    by (elim conjE)
  show ?thesis
    unfolding Let_def using h1 h2 h3 c1 c2 by (intro conjI)
qed

text \<open>
  C3, the claim as stated, fails: a row that holds the key \<^verbatim>\<open>theme\<close>, which is not a
  synced key, makes the pull tick create that key in \<^verbatim>\<open>localStorage\<close>.
\<close>

theorem C3_pull_writes_unsynced_key_counterexample:
  "''theme'' \<notin> set SYNC_KEYS
   \<and> localStorage
        (mount Map.empty \<lparr>readThrows = False, writeThrows = False, item = None\<rparr>
           (Map.empty(''u1'' \<mapsto> \<lparr>row_payload = [(''theme'', ''dark'')], row_updated_at = 0\<rparr>)))
        ''theme'' = None
   \<and> localStorage
        (pullTick (Some (createClient ''url'' ''key'')) ''u1'' None 7200000
          (mount Map.empty \<lparr>readThrows = False, writeThrows = False, item = None\<rparr>
             (Map.empty(''u1'' \<mapsto> \<lparr>row_payload = [(''theme'', ''dark'')], row_updated_at = 0\<rparr>))))
        ''theme'' = Some ''dark''"
  by (simp add: pullTick_localStorage remotePayload_def mount_def SYNC_KEYS_list)

text \<open>
  C4. After a push tick that reached the backend and succeeded, a second push tick on
  an unchanged snapshot (the store may differ outside the synced keys) finds its digest
  equal to \<^verbatim>\<open>lastPushedRef\<close> and returns before any request, whatever the client, the
  focus, the backend and the clock are: the two ticks together perform exactly one
  upsert, and the second leaves the state as it found it.
\<close>

theorem C4_second_push_is_unchanged:
  assumes "\<not> pushingRef st"
    and "JSON_stringify (readLocalStoragePayload (localStorage st)) \<noteq> lastPushedRef st"
    and "st1 = pushTick (Some c) userId False None pushedAt st"
    and "readLocalStoragePayload ls' = readLocalStoragePayload (localStorage st)"
  shows "upserts st1 = upserts st + 1
       \<and> JSON_stringify (readLocalStoragePayload ls') = lastPushedRef st1
       \<and> pushTick client userId isTyping fault now (st1\<lparr>localStorage := ls'\<rparr>) = st1\<lparr>localStorage := ls'\<rparr>
       \<and> requests (pushTick client userId isTyping fault now (st1\<lparr>localStorage := ls'\<rparr>)) = requests st1
       \<and> upserts (pushTick client userId isTyping fault now (st1\<lparr>localStorage := ls'\<rparr>)) = upserts st + 1"
proof -
  have st1: "st1 = st\<lparr>requests := requests st @ [Upsert userId (readLocalStoragePayload (localStorage st)) pushedAt],
        user_state := (user_state st)(userId \<mapsto>
           \<lparr>row_payload = readLocalStoragePayload (localStorage st), row_updated_at = pushedAt\<rparr>),
        lastPushedRef := JSON_stringify (readLocalStoragePayload (localStorage st)),
        lastSyncText := Some pushedAt, status := S_ready, pushingRef := False\<rparr>"
    using assms(1-3) by (simp add: pushTick_pushed)
  have up: "upserts st1 = upserts st + 1"
    by (simp add: st1)
  have digest: "JSON_stringify (readLocalStoragePayload ls') = lastPushedRef st1"
    by (simp add: st1 assms(4))
  have flag: "\<not> pushingRef st1"
    by (simp add: st1)
  have "pushTick client userId isTyping fault now (st1\<lparr>localStorage := ls'\<rparr>)
          = st1\<lparr>localStorage := ls', pushingRef := False\<rparr>"
    using digest by (simp add: pushTick_skip)
  also have "\<dots> = st1\<lparr>localStorage := ls'\<rparr>"
    using flag by simp
  finally have second: "pushTick client userId isTyping fault now (st1\<lparr>localStorage := ls'\<rparr>)
          = st1\<lparr>localStorage := ls'\<rparr>" .
  show ?thesis
    using up digest second by simp
qed

theorem C4_second_push_is_unchanged_witness:
  "let st = mount (Map.empty(''bankAccounts'' \<mapsto> ''v1'', ''theme'' \<mapsto> ''dark''))
              \<lparr>readThrows = False, writeThrows = False, item = None\<rparr> Map.empty;
       c = createClient ''url'' ''key'';
       ls' = (localStorage st)(''theme'' \<mapsto> ''light'');
       st1 = pushTick (Some c) ''u1'' False None 20000 st
   in \<not> pushingRef st
    \<and> JSON_stringify (readLocalStoragePayload (localStorage st)) \<noteq> lastPushedRef st
    \<and> readLocalStoragePayload ls' = readLocalStoragePayload (localStorage st)
    \<and> upserts st1 = upserts st + 1
    \<and> upserts (pushTick (Some c) ''u1'' False None 40000 (st1\<lparr>localStorage := ls'\<rparr>)) = upserts st + 1"
proof -
  let ?st = "mount (Map.empty(''bankAccounts'' \<mapsto> ''v1'', ''theme'' \<mapsto> ''dark''))
               \<lparr>readThrows = False, writeThrows = False, item = None\<rparr> Map.empty"
  let ?c = "createClient ''url'' ''key''"
  let ?ls = "(localStorage ?st)(''theme'' \<mapsto> ''light'')"
  have h1: "\<not> pushingRef ?st"
    by (simp add: mount_def)
  have h2: "JSON_stringify (readLocalStoragePayload (localStorage ?st)) \<noteq> lastPushedRef ?st"
    by (simp add: mount_def JSON_stringify_nonempty)
  have h4: "readLocalStoragePayload ?ls = readLocalStoragePayload (localStorage ?st)"
    by (rule readLocalStoragePayload_cong) (simp add: SYNC_KEYS_list)
  note t = C4_second_push_is_unchanged [OF h1 h2 refl h4, of ?c "''u1''" 20000 "Some ?c" False None 40000]
  from t have c1: "upserts (pushTick (Some ?c) ''u1'' False None 20000 ?st) = upserts ?st + 1"
    by (elim conjE)
  from t have c2: "upserts (pushTick (Some ?c) ''u1'' False None 40000
      ((pushTick (Some ?c) ''u1'' False None 20000 ?st)\<lparr>localStorage := ?ls\<rparr>)) = upserts ?st + 1"
    by (elim conjE)
  show ?thesis
    unfolding Let_def using h1 h2 h4 c1 c2 by (intro conjI)
qed

text \<open>
  C5 (as the code has it). While \<^verbatim>\<open>sessionStorage\<close> can be read and written and the
  user stays signed in, the reloads scheduled in any run of the panel (bootstraps, pull
  and push ticks, page reloads and writes by others, in any order and with any answers
  of the backend) are pairwise at least one cool-down of 3600000 ms apart. In particular,
  after a \<open>Merged\<close> pull tick that scheduled a reload at \<open>t1\<close>, a \<open>Merged\<close> pull at
  \<open>t2\<close>, by the periodic tick or by the bootstrap of the reloaded page, schedules
  another reload exactly when \<open>t2 - t1\<close> has reached the cool-down; before that the
  pull tick only sets the notification that asks for a refresh.
\<close>

theorem C5_reloads_one_cooldown_apart:
  assumes "throttleInv (sessionStorage st) (reloadTimers st)"
    and "pullOutcome (remotePayload st userId) (localStorage st) = Merged"
    and "canAutoReloadNow t1 (sessionStorage st)"
    and "st1 = pullTick (Some c) userId None t1 st"
    and "st2 = st1\<lparr>localStorage := ls, user_state := tbl\<rparr>"
    and "pullOutcome (remotePayload st2 userId) (localStorage st2) = Merged"
  shows "spaced (reloadTimers (run client userId acts st))
       \<and> reloadTimers st1 = reloadTimers st @ [t1]
       \<and> reloadTimers (pullTick (Some c) userId None t2 st2)
           = (if t2 - t1 \<ge> AUTO_RELOAD_INTERVAL_MS then reloadTimers st1 @ [t2] else reloadTimers st1)
       \<and> message (pullTick (Some c) userId None t2 st2)
           = (if t2 - t1 \<ge> AUTO_RELOAD_INTERVAL_MS then M_changed_reload else M_changed_throttled)
       \<and> reloadTimers (bootstrap (Some c) (Some userId) False False None pushFault t2 pushedAt (pageReload st2))
           = (if t2 - t1 \<ge> AUTO_RELOAD_INTERVAL_MS then reloadTimers st1 @ [t2] else reloadTimers st1)"
proof -
  from assms(1) have w: "\<not> readThrows (sessionStorage st)" "\<not> writeThrows (sessionStorage st)"
    by (simp_all add: throttleInv_def)
  have run: "spaced (reloadTimers (run client userId acts st))"
    using run_throttleInv [OF assms(1), of client userId acts] by (simp add: throttleInv_def)
  have rt1: "reloadTimers st1 = reloadTimers st @ [t1]"
    and ss1: "sessionStorage st1 = markAutoReloadNow t1 (sessionStorage st)"
    using assms(3) by (simp_all add: assms(4) pullTick_merged_reloadTimers [OF assms(2)])
  have ss2: "\<not> readThrows (sessionStorage st2)" "item (sessionStorage st2) = Some t1"
    using w by (simp_all add: assms(5) ss1 markAutoReloadNow_def)
  have can2: "canAutoReloadNow t2 (sessionStorage st2) \<longleftrightarrow> t2 - t1 \<ge> AUTO_RELOAD_INTERVAL_MS"
    using ss2 by (rule canAutoReloadNow_marked)
  have rt2: "reloadTimers st2 = reloadTimers st1"
    by (simp add: assms(5))
  have tick: "reloadTimers (pullTick (Some c) userId None t2 st2)
           = (if t2 - t1 \<ge> AUTO_RELOAD_INTERVAL_MS then reloadTimers st1 @ [t2] else reloadTimers st1)"
    and msg: "message (pullTick (Some c) userId None t2 st2)
           = (if t2 - t1 \<ge> AUTO_RELOAD_INTERVAL_MS then M_changed_reload else M_changed_throttled)"
    by (simp_all add: pullTick_merged_reloadTimers [OF assms(6)] can2 rt2)
  have boot: "reloadTimers (bootstrap (Some c) (Some userId) False False None pushFault t2 pushedAt (pageReload st2))
           = (if t2 - t1 \<ge> AUTO_RELOAD_INTERVAL_MS then reloadTimers st1 @ [t2] else reloadTimers st1)"
    using assms(6) by (simp add: bootstrap_reloadTimers can2 rt2)
  show ?thesis
    using run rt1 tick msg boot by (intro conjI)
qed

theorem C5_reloads_one_cooldown_apart_witness:
  "let st = mount Map.empty \<lparr>readThrows = False, writeThrows = False, item = None\<rparr>
              (Map.empty(''u1'' \<mapsto> \<lparr>row_payload = [(''bankAccounts'', ''v1'')], row_updated_at = 0\<rparr>));
       c = createClient ''url'' ''key'';
       st1 = pullTick (Some c) ''u1'' None 1700000000000 st;
       st2 = st1\<lparr>localStorage := Map.empty(''bankAccounts'' \<mapsto> ''v1''),
                user_state := Map.empty(''u1'' \<mapsto> \<lparr>row_payload = [(''bankAccounts'', ''v2'')], row_updated_at = 5\<rparr>)\<rparr>
   in throttleInv (sessionStorage st) (reloadTimers st)
    \<and> pullOutcome (remotePayload st ''u1'') (localStorage st) = Merged
    \<and> canAutoReloadNow 1700000000000 (sessionStorage st)
    \<and> pullOutcome (remotePayload st2 ''u1'') (localStorage st2) = Merged
    \<and> reloadTimers st1 = reloadTimers st @ [1700000000000]
    \<and> reloadTimers (pullTick (Some c) ''u1'' None 1700003599999 st2) = reloadTimers st1
    \<and> message (pullTick (Some c) ''u1'' None 1700003599999 st2) = M_changed_throttled
    \<and> reloadTimers (pullTick (Some c) ''u1'' None 1700003600000 st2) = reloadTimers st1 @ [1700003600000]
    \<and> spaced (reloadTimers (run (Some c) ''u1''
         [PullTick None 1700000000000,
          OtherWriters (Map.empty(''bankAccounts'' \<mapsto> ''v1''))
            (Map.empty(''u1'' \<mapsto> \<lparr>row_payload = [(''bankAccounts'', ''v2'')], row_updated_at = 5\<rparr>)),
          PullTick None 1700003599999] st))"
proof -
  let ?st = "mount Map.empty \<lparr>readThrows = False, writeThrows = False, item = None\<rparr>
              (Map.empty(''u1'' \<mapsto> \<lparr>row_payload = [(''bankAccounts'', ''v1'')], row_updated_at = 0\<rparr>))"
  let ?c = "createClient ''url'' ''key''"
  let ?st1 = "pullTick (Some ?c) ''u1'' None 1700000000000 ?st"
  let ?ls = "Map.empty(''bankAccounts'' \<mapsto> ''v1'')"
  let ?tbl = "Map.empty(''u1'' \<mapsto> \<lparr>row_payload = [(''bankAccounts'', ''v2'')], row_updated_at = 5\<rparr>)"
  let ?st2 = "?st1\<lparr>localStorage := ?ls, user_state := ?tbl\<rparr>"
  let ?acts = "[PullTick None 1700000000000, OtherWriters ?ls ?tbl, PullTick None 1700003599999]"
  have h1: "throttleInv (sessionStorage ?st) (reloadTimers ?st)"
    by (rule throttleInv_mount)
  have h2: "pullOutcome (remotePayload ?st ''u1'') (localStorage ?st) = Merged"
    by (simp add: remotePayload_def mount_def pullOutcome_differs [of _ "''bankAccounts''" "''v1''"])
  have h3: "canAutoReloadNow 1700000000000 (sessionStorage ?st)"
    by (simp add: canAutoReloadNow_def getLastAutoReloadAt_def AUTO_RELOAD_INTERVAL_MS_def mount_def)
  have h6: "pullOutcome (remotePayload ?st2 ''u1'') (localStorage ?st2) = Merged"
    by (simp add: remotePayload_def pullOutcome_differs [of _ "''bankAccounts''" "''v2''"])
  note early = C5_reloads_one_cooldown_apart [OF h1 h2 h3 refl refl h6, of "Some ?c" ?acts 1700003599999 None 0]
  note late = C5_reloads_one_cooldown_apart [OF h1 h2 h3 refl refl h6, of "Some ?c" ?acts 1700003600000 None 0]
  from early have c1: "reloadTimers ?st1 = reloadTimers ?st @ [1700000000000]"
    by (elim conjE)
  from early have c2: "reloadTimers (pullTick (Some ?c) ''u1'' None 1700003599999 ?st2) = reloadTimers ?st1"
    by (simp add: AUTO_RELOAD_INTERVAL_MS_def)
  from early have c3: "message (pullTick (Some ?c) ''u1'' None 1700003599999 ?st2) = M_changed_throttled"
    by (simp add: AUTO_RELOAD_INTERVAL_MS_def)
  from late have c4: "reloadTimers (pullTick (Some ?c) ''u1'' None 1700003600000 ?st2)
                        = reloadTimers ?st1 @ [1700003600000]"
    by (simp add: AUTO_RELOAD_INTERVAL_MS_def)
  from early have c5: "spaced (reloadTimers (run (Some ?c) ''u1'' ?acts ?st))"
    by (elim conjE)
  show ?thesis
    unfolding Let_def using h1 h2 h3 h6 c1 c2 c3 c4 c5 by (intro conjI)
qed

text \<open>
  C5, the claim as stated, fails in two ways. Signing out removes the mark: a \<open>Merged\<close>
  pull tick schedules a reload, the user signs out and in again, and the bootstrap, one
  minute after the first reload, schedules a second one. And when \<^verbatim>\<open>sessionStorage\<close>
  throws, the mark is never stored: a \<open>Merged\<close> pull tick schedules a reload, and the
  bootstrap of the reloaded page, one second later, schedules the next.
\<close>

theorem C5_two_reloads_within_cooldown_counterexample:
  "\<not> spaced (reloadTimers
      (bootstrap (Some (createClient ''url'' ''key'')) (Some ''u1'') False False None None
         1700000060000 1700000061000
         ((signOut (Some (createClient ''url'' ''key''))
            (pullTick (Some (createClient ''url'' ''key'')) ''u1'' None 1700000000000
               (mount Map.empty \<lparr>readThrows = False, writeThrows = False, item = None\<rparr>
                  (Map.empty(''u1'' \<mapsto> \<lparr>row_payload = [(''bankAccounts'', ''v1'')], row_updated_at = 0\<rparr>)))))
          \<lparr>user_state := Map.empty(''u1'' \<mapsto> \<lparr>row_payload = [(''bankAccounts'', ''v2'')], row_updated_at = 5\<rparr>)\<rparr>)))
   \<and> \<not> spaced (reloadTimers
      (bootstrap (Some (createClient ''url'' ''key'')) (Some ''u1'') False False None None
         1700000001000 1700000002000
         ((pageReload
            (pullTick (Some (createClient ''url'' ''key'')) ''u1'' None 1700000000000
               (mount Map.empty \<lparr>readThrows = True, writeThrows = True, item = None\<rparr>
                  (Map.empty(''u1'' \<mapsto> \<lparr>row_payload = [(''bankAccounts'', ''v1'')], row_updated_at = 0\<rparr>)))))
          \<lparr>user_state := Map.empty(''u1'' \<mapsto> \<lparr>row_payload = [(''bankAccounts'', ''v2'')], row_updated_at = 5\<rparr>)\<rparr>)))"
proof -
  let ?c = "createClient ''url'' ''key''"
  let ?tbl1 = "Map.empty(''u1'' \<mapsto> \<lparr>row_payload = [(''bankAccounts'', ''v1'')], row_updated_at = 0\<rparr>)"
  let ?tbl2 = "Map.empty(''u1'' \<mapsto> \<lparr>row_payload = [(''bankAccounts'', ''v2'')], row_updated_at = 5\<rparr>)"
  let ?A = "mount Map.empty \<lparr>readThrows = False, writeThrows = False, item = None\<rparr> ?tbl1"
  let ?B = "mount Map.empty \<lparr>readThrows = True, writeThrows = True, item = None\<rparr> ?tbl1"
  let ?A1 = "pullTick (Some ?c) ''u1'' None 1700000000000 ?A"
  let ?B1 = "pullTick (Some ?c) ''u1'' None 1700000000000 ?B"
  let ?A3 = "(signOut (Some ?c) ?A1)\<lparr>user_state := ?tbl2\<rparr>"
  let ?B3 = "(pageReload ?B1)\<lparr>user_state := ?tbl2\<rparr>"
  have mA: "pullOutcome (remotePayload ?A ''u1'') (localStorage ?A) = Merged"
    and mB: "pullOutcome (remotePayload ?B ''u1'') (localStorage ?B) = Merged"
    by (simp_all add: remotePayload_def mount_def pullOutcome_differs [of _ "''bankAccounts''" "''v1''"])
  have canA: "canAutoReloadNow 1700000000000 (sessionStorage ?A)"
    and canB: "canAutoReloadNow 1700000000000 (sessionStorage ?B)"
    by (simp_all add: canAutoReloadNow_def getLastAutoReloadAt_def AUTO_RELOAD_INTERVAL_MS_def mount_def)
  have "reloadTimers ?A1 = reloadTimers ?A @ [1700000000000]"
      "sessionStorage ?A1 = markAutoReloadNow 1700000000000 (sessionStorage ?A)"
    using canA by (simp_all only: pullTick_merged_reloadTimers [OF mA] if_True)
  moreover have "reloadTimers ?A = []"
      "sessionStorage ?A = \<lparr>readThrows = False, writeThrows = False, item = None\<rparr>"
    by (simp_all add: mount_def)
  ultimately have A1: "reloadTimers ?A1 = [1700000000000]"
      "sessionStorage ?A1 = \<lparr>readThrows = False, writeThrows = False, item = Some 1700000000000\<rparr>"
    by (simp_all add: markAutoReloadNow_def)
  have "reloadTimers ?B1 = reloadTimers ?B @ [1700000000000]"
      "sessionStorage ?B1 = markAutoReloadNow 1700000000000 (sessionStorage ?B)"
    using canB by (simp_all only: pullTick_merged_reloadTimers [OF mB] if_True)
  moreover have "reloadTimers ?B = []"
      "sessionStorage ?B = \<lparr>readThrows = True, writeThrows = True, item = None\<rparr>"
    by (simp_all add: mount_def)
  ultimately have B1: "reloadTimers ?B1 = [1700000000000]"
      "sessionStorage ?B1 = \<lparr>readThrows = True, writeThrows = True, item = None\<rparr>"
    by (simp_all add: markAutoReloadNow_def)
  have lsA: "localStorage ?A1 ''bankAccounts'' = Some ''v1''"
    by (simp add: pullTick_localStorage remotePayload_def mount_def)
  have lsB: "localStorage ?B1 ''bankAccounts'' = Some ''v1''"
    by (simp add: pullTick_localStorage remotePayload_def mount_def)
  have mA3: "pullOutcome (remotePayload ?A3 ''u1'') (localStorage ?A3) = Merged"
    using lsA by (simp add: remotePayload_def pullOutcome_differs [of _ "''bankAccounts''" "''v2''"])
  have mB3: "pullOutcome (remotePayload ?B3 ''u1'') (localStorage ?B3) = Merged"
    using lsB by (simp add: remotePayload_def pullOutcome_differs [of _ "''bankAccounts''" "''v2''"])
  have canA3: "canAutoReloadNow 1700000060000 (sessionStorage ?A3)"
    by (simp add: A1 clearAutoReloadMark_def canAutoReloadNow_def getLastAutoReloadAt_def
                  AUTO_RELOAD_INTERVAL_MS_def)
  have canB3: "canAutoReloadNow 1700000001000 (sessionStorage ?B3)"
    by (simp add: B1 canAutoReloadNow_def getLastAutoReloadAt_def AUTO_RELOAD_INTERVAL_MS_def)
  have rA: "reloadTimers (bootstrap (Some ?c) (Some ''u1'') False False None None
              1700000060000 1700000061000 ?A3) = [1700000000000, 1700000060000]"
    using mA3 canA3 by (simp add: bootstrap_reloadTimers A1)
  have rB: "reloadTimers (bootstrap (Some ?c) (Some ''u1'') False False None None
              1700000001000 1700000002000 ?B3) = [1700000000000, 1700000001000]"
    using mB3 canB3 by (simp add: bootstrap_reloadTimers B1)
  have "\<not> spaced [1700000000000, 1700000060000]" "\<not> spaced [1700000000000, 1700000001000]"
    by (simp_all add: not_spaced_pair AUTO_RELOAD_INTERVAL_MS_def)
  then show ?thesis
    by (simp only: rA rB) simp
qed

text \<open>
  C6 against the code. When every read and every write of \<^verbatim>\<open>sessionStorage\<close> throws,
  \<^verbatim>\<open>getLastAutoReloadAt\<close> answers 0 from its handler and \<^verbatim>\<open>markAutoReloadNow\<close> stores
  nothing. For any clock value of at least one cool-down after the epoch the throttle
  therefore allows the reload: every \<open>Merged\<close> pull, by the periodic tick or by the
  bootstrap, schedules a reload and leaves the storage as it was, so that the next
  \<open>Merged\<close> pull schedules one again. Auto-reload is not disabled.
\<close>

theorem C6_blocked_storage_reloads_on_every_merge:
  assumes "readThrows (sessionStorage st)" and "writeThrows (sessionStorage st)"
    and "AUTO_RELOAD_INTERVAL_MS \<le> now"
    and "pullOutcome (remotePayload st userId) (localStorage st) = Merged"
  shows "canAutoReloadNow now (sessionStorage st)
       \<and> reloadTimers (pullTick (Some c) userId None now st) = reloadTimers st @ [now]
       \<and> sessionStorage (pullTick (Some c) userId None now st) = sessionStorage st
       \<and> message (pullTick (Some c) userId None now st) = M_changed_reload
       \<and> reloadTimers (bootstrap (Some c) (Some userId) False False None pushFault now pushedAt st)
            = reloadTimers st @ [now]
       \<and> upserts (bootstrap (Some c) (Some userId) False False None pushFault now pushedAt st)
            = upserts st"
proof -
  have can: "canAutoReloadNow now (sessionStorage st)"
    using assms(1,3) by (simp add: canAutoReloadNow_blocked)
  moreover have "markAutoReloadNow now (sessionStorage st) = sessionStorage st"
    using assms(2) by (simp add: markAutoReloadNow_def)
  ultimately show ?thesis
    using assms(4)
    by (simp add: pullTick_merged_reloadTimers [OF assms(4)] bootstrap_reloadTimers bootstrap_upserts)
qed

theorem C6_blocked_storage_reloads_on_every_merge_witness:
  "let st = mount Map.empty \<lparr>readThrows = True, writeThrows = True, item = None\<rparr>
              (Map.empty(''u1'' \<mapsto> \<lparr>row_payload = [(''bankAccounts'', ''v1'')], row_updated_at = 0\<rparr>));
       c = createClient ''url'' ''key''
   in readThrows (sessionStorage st) \<and> writeThrows (sessionStorage st)
    \<and> AUTO_RELOAD_INTERVAL_MS \<le> 1700000000000
    \<and> pullOutcome (remotePayload st ''u1'') (localStorage st) = Merged
    \<and> reloadTimers (pullTick (Some c) ''u1'' None 1700000000000 st) = reloadTimers st @ [1700000000000]
    \<and> sessionStorage (pullTick (Some c) ''u1'' None 1700000000000 st) = sessionStorage st"
proof -
  let ?st = "mount Map.empty \<lparr>readThrows = True, writeThrows = True, item = None\<rparr>
              (Map.empty(''u1'' \<mapsto> \<lparr>row_payload = [(''bankAccounts'', ''v1'')], row_updated_at = 0\<rparr>))"
  let ?c = "createClient ''url'' ''key''"
  have h1: "readThrows (sessionStorage ?st)" and h2: "writeThrows (sessionStorage ?st)"
    by (simp_all add: mount_def)
  have h3: "AUTO_RELOAD_INTERVAL_MS \<le> 1700000000000"
    by (simp add: AUTO_RELOAD_INTERVAL_MS_def)
  have h4: "pullOutcome (remotePayload ?st ''u1'') (localStorage ?st) = Merged"
    by (simp add: remotePayload_def mount_def pullOutcome_differs [of _ "''bankAccounts''" "''v1''"])
  note t = C6_blocked_storage_reloads_on_every_merge [OF h1 h2 h3 h4, of ?c None 0]
  from t have c1: "reloadTimers (pullTick (Some ?c) ''u1'' None 1700000000000 ?st)
                     = reloadTimers ?st @ [1700000000000]"
    by (elim conjE)
  from t have c2: "sessionStorage (pullTick (Some ?c) ''u1'' None 1700000000000 ?st) = sessionStorage ?st"
    by (elim conjE)
  show ?thesis
    unfolding Let_def using h1 h2 h3 h4 c1 c2 by (intro conjI)
qed

text \<open>
  C7 (as the code has it). When the bootstrap runs to the end of its pull (signed in,
  client configured, pull answered without error) and its effect has not been cancelled
  meanwhile, it pushes the local snapshot exactly when it does not schedule a reload. It schedules the reload,
  and returns without pushing, exactly when the pull is \<open>Merged\<close> and the throttle
  allows a reload. So the push follows \<open>NoRemoteData\<close> and \<open>UpToDate\<close>, and it
  also follows a \<open>Merged\<close> pull whose reload is throttled. A cancelled effect stops
  after the pull: no merge, no reload, no push.
\<close>

theorem C7_bootstrap_pushes_unless_reload_scheduled:
  "upserts (bootstrap (Some c) (Some userId) False False None pushFault now pushedAt st)
     = (if pullOutcome (remotePayload st userId) (localStorage st) = Merged
           \<and> canAutoReloadNow now (sessionStorage st)
        then upserts st else upserts st + 1)
   \<and> reloadTimers (bootstrap (Some c) (Some userId) False False None pushFault now pushedAt st)
     = (if pullOutcome (remotePayload st userId) (localStorage st) = Merged
           \<and> canAutoReloadNow now (sessionStorage st)
        then reloadTimers st @ [now] else reloadTimers st)
   \<and> upserts (bootstrap (Some c) (Some userId) False True None pushFault now pushedAt st) = upserts st
   \<and> reloadTimers (bootstrap (Some c) (Some userId) False True None pushFault now pushedAt st)
     = reloadTimers st
   \<and> localStorage (bootstrap (Some c) (Some userId) False True None pushFault now pushedAt st)
     = localStorage st"
  by (simp add: bootstrap_upserts bootstrap_reloadTimers bootstrap_cancelled)

theorem C7_bootstrap_pushes_unless_reload_scheduled_witness:
  "let st = mount (Map.empty(''stockPortfolio'' \<mapsto> ''{}''))
              \<lparr>readThrows = False, writeThrows = False, item = None\<rparr> Map.empty;
       c = createClient ''url'' ''key''
   in pullOutcome (remotePayload st ''u1'') (localStorage st) = NoRemoteData
    \<and> upserts (bootstrap (Some c) (Some ''u1'') False False None None 1700000060000 1700000061000 st) = 1
    \<and> reloadTimers (bootstrap (Some c) (Some ''u1'') False False None None 1700000060000 1700000061000 st) = []"
proof -
  let ?st = "mount (Map.empty(''stockPortfolio'' \<mapsto> ''{}''))
              \<lparr>readThrows = False, writeThrows = False, item = None\<rparr> Map.empty"
  let ?c = "createClient ''url'' ''key''"
  have out: "pullOutcome (remotePayload ?st ''u1'') (localStorage ?st) = NoRemoteData"
    by (simp add: pullOutcome_def remotePayload_def mount_def)
  have zero: "upserts ?st = 0" "reloadTimers ?st = []"
    by (simp, simp add: mount_def)
  note t = C7_bootstrap_pushes_unless_reload_scheduled
             [of ?c "''u1''" None 1700000060000 1700000061000 ?st]
  from t out zero
  have c1: "upserts (bootstrap (Some ?c) (Some ''u1'') False False None None 1700000060000 1700000061000 ?st) = 1"
    by simp
  from t out zero
  have c2: "reloadTimers (bootstrap (Some ?c) (Some ''u1'') False False None None 1700000060000 1700000061000 ?st) = []"
    by simp
  show ?thesis
    unfolding Let_def using out c1 c2 by (intro conjI)
qed

text \<open>
  C7, the claim as stated, fails in both directions. With a reload marked one minute
  ago, the pull of the bootstrap is \<open>Merged\<close> and the bootstrap still pushes. And
  when the effect is cancelled while the pull is in flight, the pull finds no row and the
  bootstrap does not push.
\<close>

theorem C7_bootstrap_push_not_tied_to_outcome_counterexample:
  "pullOutcome
     (remotePayload
        (mount Map.empty \<lparr>readThrows = False, writeThrows = False, item = Some 1700000000000\<rparr>
           (Map.empty(''u1'' \<mapsto> \<lparr>row_payload = [(''bankAccounts'', ''v1'')], row_updated_at = 0\<rparr>)))
        ''u1'')
     (localStorage
        (mount Map.empty \<lparr>readThrows = False, writeThrows = False, item = Some 1700000000000\<rparr>
           (Map.empty(''u1'' \<mapsto> \<lparr>row_payload = [(''bankAccounts'', ''v1'')], row_updated_at = 0\<rparr>))))
     = Merged
   \<and> upserts
        (mount Map.empty \<lparr>readThrows = False, writeThrows = False, item = Some 1700000000000\<rparr>
           (Map.empty(''u1'' \<mapsto> \<lparr>row_payload = [(''bankAccounts'', ''v1'')], row_updated_at = 0\<rparr>)))
     = 0
   \<and> upserts
        (bootstrap (Some (createClient ''url'' ''key'')) (Some ''u1'') False False None None
           1700000060000 1700000061000
           (mount Map.empty \<lparr>readThrows = False, writeThrows = False, item = Some 1700000000000\<rparr>
              (Map.empty(''u1'' \<mapsto> \<lparr>row_payload = [(''bankAccounts'', ''v1'')], row_updated_at = 0\<rparr>))))
     = 1
   \<and> pullOutcome
        (remotePayload
           (mount (Map.empty(''stockPortfolio'' \<mapsto> ''{}''))
              \<lparr>readThrows = False, writeThrows = False, item = None\<rparr> Map.empty)
           ''u1'')
        (localStorage
           (mount (Map.empty(''stockPortfolio'' \<mapsto> ''{}''))
              \<lparr>readThrows = False, writeThrows = False, item = None\<rparr> Map.empty))
     = NoRemoteData
   \<and> upserts
        (bootstrap (Some (createClient ''url'' ''key'')) (Some ''u1'') False True None None
           1700000060000 1700000061000
           (mount (Map.empty(''stockPortfolio'' \<mapsto> ''{}''))
              \<lparr>readThrows = False, writeThrows = False, item = None\<rparr> Map.empty))
     = 0"
proof -
  let ?st = "mount Map.empty \<lparr>readThrows = False, writeThrows = False, item = Some 1700000000000\<rparr>
           (Map.empty(''u1'' \<mapsto> \<lparr>row_payload = [(''bankAccounts'', ''v1'')], row_updated_at = 0\<rparr>))"
  let ?fresh = "mount (Map.empty(''stockPortfolio'' \<mapsto> ''{}''))
              \<lparr>readThrows = False, writeThrows = False, item = None\<rparr> Map.empty"
  have out: "pullOutcome (remotePayload ?st ''u1'') (localStorage ?st) = Merged"
    by (simp add: remotePayload_def mount_def pullOutcome_differs [of _ "''bankAccounts''" "''v1''"])
  have throttled: "\<not> canAutoReloadNow 1700000060000 (sessionStorage ?st)"
    by (simp add: canAutoReloadNow_def getLastAutoReloadAt_def AUTO_RELOAD_INTERVAL_MS_def mount_def)
  have zero: "upserts ?st = 0"
    by simp
  have pushed: "upserts (bootstrap (Some (createClient ''url'' ''key'')) (Some ''u1'') False False None None
           1700000060000 1700000061000 ?st) = 1"
    using out throttled zero by (simp only: bootstrap_upserts) simp
  have none: "pullOutcome (remotePayload ?fresh ''u1'') (localStorage ?fresh) = NoRemoteData"
    by (simp add: pullOutcome_def remotePayload_def mount_def)
  have dropped: "upserts (bootstrap (Some (createClient ''url'' ''key'')) (Some ''u1'') False True None None
           1700000060000 1700000061000 ?fresh) = 0"
    by (simp add: bootstrap_cancelled)
  from out zero pushed none dropped show ?thesis
    by (intro conjI)
qed

text \<open>
  C8. When the upsert of a push tick is answered with an error, the tick still returns
  normally: the request was attempted and the error is on the console, while
  \<^verbatim>\<open>lastPushedRef\<close>, \<^verbatim>\<open>localStorage\<close>, the status and the table are as before and
  \<^verbatim>\<open>pushingRef\<close> is cleared. The next tick therefore attempts the upsert of the same
  payload again.
\<close>

theorem C8_failed_push_leaves_no_trace:
  assumes "\<not> pushingRef st"
    and "JSON_stringify (readLocalStoragePayload (localStorage st)) \<noteq> lastPushedRef st"
    and "st1 = pushTick (Some c) userId False (Some e) pushedAt st"
  shows "upserts st1 = upserts st + 1
       \<and> lastPushedRef st1 = lastPushedRef st
       \<and> localStorage st1 = localStorage st
       \<and> \<not> pushingRef st1
       \<and> console st1 = console st @ [e]
       \<and> status st1 = status st
       \<and> user_state st1 = user_state st
       \<and> requests (pushTick (Some c) userId False fault now st1)
            = requests st1 @ [Upsert userId (readLocalStoragePayload (localStorage st)) now]"
proof -
  have st1: "st1 = st\<lparr>requests := requests st @ [Upsert userId (readLocalStoragePayload (localStorage st)) pushedAt],
        console := console st @ [e], pushingRef := False\<rparr>"
    using assms by (simp add: pushTick_failed)
  have retry: "requests (pushTick (Some c) userId False fault now st1)
            = requests st1 @ [Upsert userId (readLocalStoragePayload (localStorage st)) now]"
  proof -
    have a: "\<not> pushingRef st1"
      and b: "JSON_stringify (readLocalStoragePayload (localStorage st1)) \<noteq> lastPushedRef st1"
      using assms(2) by (simp_all add: st1)
    have c: "localStorage st1 = localStorage st"
      by (simp add: st1)
    show ?thesis
      by (cases fault) (simp_all add: pushTick_pushed [OF a b] pushTick_failed [OF a b] c)
  qed
  show ?thesis
    using retry by (simp add: st1)
qed

theorem C8_failed_push_leaves_no_trace_witness:
  "let st = mount (Map.empty(''bankAccounts'' \<mapsto> ''v1'', ''theme'' \<mapsto> ''dark''))
              \<lparr>readThrows = False, writeThrows = False, item = None\<rparr> Map.empty;
       c = createClient ''url'' ''key'';
       st1 = pushTick (Some c) ''u1'' False (Some (SyncError ''offline'')) 20000 st
   in \<not> pushingRef st
    \<and> JSON_stringify (readLocalStoragePayload (localStorage st)) \<noteq> lastPushedRef st
    \<and> lastPushedRef st1 = lastPushedRef st
    \<and> localStorage st1 = localStorage st
    \<and> \<not> pushingRef st1
    \<and> console st1 = console st @ [SyncError ''offline'']
    \<and> requests (pushTick (Some c) ''u1'' False None 40000 st1)
         = requests st1 @ [Upsert ''u1'' (readLocalStoragePayload (localStorage st)) 40000]"
proof -
  let ?st = "mount (Map.empty(''bankAccounts'' \<mapsto> ''v1'', ''theme'' \<mapsto> ''dark''))
               \<lparr>readThrows = False, writeThrows = False, item = None\<rparr> Map.empty"
  let ?c = "createClient ''url'' ''key''"
  let ?st1 = "pushTick (Some ?c) ''u1'' False (Some (SyncError ''offline'')) 20000 ?st"
  have h1: "\<not> pushingRef ?st"
    by (simp add: mount_def)
  have h2: "JSON_stringify (readLocalStoragePayload (localStorage ?st)) \<noteq> lastPushedRef ?st"
    by (simp add: mount_def JSON_stringify_nonempty)
  note t = C8_failed_push_leaves_no_trace [OF h1 h2 refl, of ?c "''u1''" "SyncError ''offline''" 20000 None 40000]
  from t have c1: "lastPushedRef ?st1 = lastPushedRef ?st"
    by (elim conjE)
  from t have c2: "localStorage ?st1 = localStorage ?st"
    by (elim conjE)
  from t have c3: "\<not> pushingRef ?st1"
    by (elim conjE)
  from t have c4: "console ?st1 = console ?st @ [SyncError ''offline'']"
    by (elim conjE)
  from t have c5: "requests (pushTick (Some ?c) ''u1'' False None 40000 ?st1)
         = requests ?st1 @ [Upsert ''u1'' (readLocalStoragePayload (localStorage ?st)) 40000]"
    by (elim conjE)
  show ?thesis
    unfolding Let_def using h1 h2 c1 c2 c3 c4 c5 by (intro conjI)
qed

text \<open>
  C9. When the backend is not configured, that is, when either environment variable is
  absent and the client is therefore \<^verbatim>\<open>null\<close>, \<^verbatim>\<open>pullFromCloud\<close> returns \<^verbatim>\<open>null\<close>
  and \<^verbatim>\<open>pushToCloud\<close> returns normally, and both leave the whole state as it was: no
  request is sent, the table \<^verbatim>\<open>user_state\<close> and \<^verbatim>\<open>localStorage\<close> are unchanged, for
  every user id, payload, backend answer and clock value. The bootstrap and the two
  periodic ticks of the panel do nothing at all.
\<close>

theorem C9_not_configured_noop:
  assumes "VITE_SUPABASE_URL e = None \<or> VITE_SUPABASE_ANON_KEY e = None"
  shows "supabase e = None
    \<and> pullFromCloud (supabase e) fault userId st = (Inr None, st)
    \<and> pushToCloud (supabase e) fault now userId p st = (Inr (), st)
    \<and> bootstrap (supabase e) user loading cancelled pullFault pushFault now pushedAt st = st
    \<and> periodicPull (supabase e) user fault now st = st
    \<and> periodicPush (supabase e) user isTyping fault now st = st"
proof -
  from assms have "\<not> isSupabaseConfigured e"
    by (auto simp: isSupabaseConfigured_def truthy_def)
  then have "supabase e = None"
    by (simp add: supabase_None_iff)
  then show ?thesis
    by (simp add: pullFromCloud_def pushToCloud_def bootstrap_def periodicPull_def periodicPush_def
             split: option.splits)
qed

theorem C9_not_configured_noop_witness:
  "(VITE_SUPABASE_URL \<lparr>VITE_SUPABASE_URL = Some ''https://x.supabase.co'', VITE_SUPABASE_ANON_KEY = None\<rparr> = None
      \<or> VITE_SUPABASE_ANON_KEY \<lparr>VITE_SUPABASE_URL = Some ''https://x.supabase.co'', VITE_SUPABASE_ANON_KEY = None\<rparr> = None)
   \<and> pullFromCloud (supabase \<lparr>VITE_SUPABASE_URL = Some ''https://x.supabase.co'', VITE_SUPABASE_ANON_KEY = None\<rparr>)
        (Some (SyncError ''offline'')) ''u1''
        (mount Map.empty \<lparr>readThrows = False, writeThrows = False, item = None\<rparr> Map.empty)
      = (Inr None, mount Map.empty \<lparr>readThrows = False, writeThrows = False, item = None\<rparr> Map.empty)
   \<and> pushToCloud (supabase \<lparr>VITE_SUPABASE_URL = Some ''https://x.supabase.co'', VITE_SUPABASE_ANON_KEY = None\<rparr>)
        (Some (SyncError ''offline'')) 5 ''u1'' [(''bankAccounts'', ''v1'')]
        (mount Map.empty \<lparr>readThrows = False, writeThrows = False, item = None\<rparr> Map.empty)
      = (Inr (), mount Map.empty \<lparr>readThrows = False, writeThrows = False, item = None\<rparr> Map.empty)"
proof -
  let ?e = "\<lparr>VITE_SUPABASE_URL = Some ''https://x.supabase.co'', VITE_SUPABASE_ANON_KEY = None\<rparr>"
  have h: "VITE_SUPABASE_URL ?e = None \<or> VITE_SUPABASE_ANON_KEY ?e = None"
    by simp
  from h C9_not_configured_noop [OF h] show ?thesis
    by blast
qed

text \<open>
  C10. A row whose payload is the empty object is handled as a missing row. The pull
  tick ends in the same state for both, whatever the client and the backend's answer
  are (only the table, which the tick never writes, tells them apart), with
  \<^verbatim>\<open>localStorage\<close> untouched and no reload scheduled. The bootstrap skips the merge and
  the reload in both cases and pushes the local snapshot; when the push succeeds, the
  two runs end in the very same state, in which the row of the user holds the local
  snapshot in place of the empty payload.
\<close>

theorem C10_empty_payload_is_no_data:
  "pullOutcome (Some []) ls = NoRemoteData
   \<and> pullOutcome None ls = NoRemoteData
   \<and> pullTick client userId fault now
        (st\<lparr>user_state := (user_state st)(userId \<mapsto> \<lparr>row_payload = [], row_updated_at = t0\<rparr>)\<rparr>)
      = (pullTick client userId fault now (st\<lparr>user_state := (user_state st)(userId := None)\<rparr>))
          \<lparr>user_state := (user_state st)(userId \<mapsto> \<lparr>row_payload = [], row_updated_at = t0\<rparr>)\<rparr>
   \<and> localStorage (pullTick client userId fault now
        (st\<lparr>user_state := (user_state st)(userId \<mapsto> \<lparr>row_payload = [], row_updated_at = t0\<rparr>)\<rparr>))
      = localStorage st
   \<and> reloadTimers (pullTick client userId fault now
        (st\<lparr>user_state := (user_state st)(userId \<mapsto> \<lparr>row_payload = [], row_updated_at = t0\<rparr>)\<rparr>))
      = reloadTimers st
   \<and> bootstrap (Some c) (Some userId) False False None None now pushedAt
        (st\<lparr>user_state := (user_state st)(userId \<mapsto> \<lparr>row_payload = [], row_updated_at = t0\<rparr>)\<rparr>)
      = bootstrap (Some c) (Some userId) False False None None now pushedAt
          (st\<lparr>user_state := (user_state st)(userId := None)\<rparr>)
   \<and> localStorage (bootstrap (Some c) (Some userId) False False None None now pushedAt
        (st\<lparr>user_state := (user_state st)(userId \<mapsto> \<lparr>row_payload = [], row_updated_at = t0\<rparr>)\<rparr>))
      = localStorage st
   \<and> reloadTimers (bootstrap (Some c) (Some userId) False False None None now pushedAt
        (st\<lparr>user_state := (user_state st)(userId \<mapsto> \<lparr>row_payload = [], row_updated_at = t0\<rparr>)\<rparr>))
      = reloadTimers st
   \<and> user_state (bootstrap (Some c) (Some userId) False False None None now pushedAt
        (st\<lparr>user_state := (user_state st)(userId \<mapsto> \<lparr>row_payload = [], row_updated_at = t0\<rparr>)\<rparr>))
        userId
      = Some \<lparr>row_payload = readLocalStoragePayload (localStorage st), row_updated_at = pushedAt\<rparr>"
proof -
  let ?E = "st\<lparr>user_state := (user_state st)(userId \<mapsto> \<lparr>row_payload = [], row_updated_at = t0\<rparr>)\<rparr>"
  let ?M = "st\<lparr>user_state := (user_state st)(userId := None)\<rparr>"
  have rE: "remotePayload ?E userId = Some []" and rM: "remotePayload ?M userId = None"
    by (simp_all add: remotePayload_def)
  have oE: "pullOutcome (Some []) ls = NoRemoteData" and oM: "pullOutcome None ls = NoRemoteData" for ls
    by (simp_all add: pullOutcome_def Object_keys_def)
  have tickE: "pullTick client userId fault now ?E
      = (pullTick client userId fault now ?M)
          \<lparr>user_state := (user_state st)(userId \<mapsto> \<lparr>row_payload = [], row_updated_at = t0\<rparr>)\<rparr>"
    by (simp add: pullTick_empty_row [OF rE] pullTick_no_row [OF rM] split: option.splits)
  have tick_ls: "localStorage (pullTick client userId fault now ?E) = localStorage st"
    and tick_rt: "reloadTimers (pullTick client userId fault now ?E) = reloadTimers st"
    by (simp_all add: pullTick_empty_row [OF rE] split: option.splits)
  have bE: "pullOutcome (remotePayload ?E userId) (localStorage ?E) = NoRemoteData"
    and bM: "pullOutcome (remotePayload ?M userId) (localStorage ?M) = NoRemoteData"
    by (simp_all only: rE rM oE oM)
  have boot: "bootstrap (Some c) (Some userId) False False None None now pushedAt ?E
      = bootstrap (Some c) (Some userId) False False None None now pushedAt ?M"
    by (simp add: bootstrap_no_merge [OF bE] bootstrap_no_merge [OF bM])
  have boot_fields:
    "localStorage (bootstrap (Some c) (Some userId) False False None None now pushedAt ?E) = localStorage st"
    "reloadTimers (bootstrap (Some c) (Some userId) False False None None now pushedAt ?E) = reloadTimers st"
    "user_state (bootstrap (Some c) (Some userId) False False None None now pushedAt ?E) userId
      = Some \<lparr>row_payload = readLocalStoragePayload (localStorage st), row_updated_at = pushedAt\<rparr>"
    by (simp_all add: bootstrap_no_merge [OF bE])
  show ?thesis
    using oE oM tickE tick_ls tick_rt boot boot_fields by (intro conjI)
qed

end
